theory Spec2Isabelle
  imports Main "HOL-Library.Word"
begin

unbundle bit_operations_syntax

section \<open>Bytes, machine words and byte order\<close>

type_synonym u8 = "8 word"
type_synonym u16 = "16 word"
type_synonym u32 = "32 word"
type_synonym u64 = "64 word"

text \<open>
  The value of an integer member of a packed struct, as the (little-endian) host reads
  it from the bytes the member occupies: the first byte is the least significant one.
  \<open>WIA_MAGIC\<close> is written for such a host (``byteswapped to little endian'').
\<close>

fun le_word :: "u8 list \<Rightarrow> 'a::len word" where
  "le_word [] = 0"
| "le_word (b # bs) = ucast b OR push_bit 8 (le_word bs)"

text \<open>The value of the same bytes read as a big-endian integer, the order of the file format.\<close>

definition be_word :: "u8 list \<Rightarrow> 'a::len word" where
  "be_word bs = le_word (rev bs)"

text \<open>Modelled from the spec: \<open>Common::swap16\<close> of Common/Swap.h, a header that is not among
  the sources; it exchanges the two bytes of its argument (``byte-swap every integer from
  big-endian to host'').
\<close>

definition swap16 :: "u16 \<Rightarrow> u16" where
  "swap16 data = drop_bit 8 data OR push_bit 8 data"

text \<open>Modelled from the spec: \<open>Common::swap32\<close> of Common/Swap.h (not among the sources),
  the byte swap of a 32-bit integer: both halves swapped and exchanged.
\<close>

definition swap32 :: "u32 \<Rightarrow> u32" where
  "swap32 data =
     push_bit 16 (ucast (swap16 (ucast data))) OR ucast (swap16 (ucast (drop_bit 16 data)))"

text \<open>Modelled from the spec: \<open>Common::swap64\<close> of Common/Swap.h (not among the sources),
  the byte swap of a 64-bit integer: both halves swapped and exchanged.
\<close>

definition swap64 :: "u64 \<Rightarrow> u64" where
  "swap64 data =
     push_bit 32 (ucast (swap32 (ucast data))) OR ucast (swap32 (ucast (drop_bit 32 data)))"

section \<open>The packed on-disk structs\<close>

text \<open>
  The structs of the header are declared between \<open>#pragma pack(push, 1)\<close> and
  \<open>#pragma pack(pop)\<close>: members follow each other without padding, so the size of a
  struct is the sum of the sizes of its members and a member starts where the previous
  one ends.
\<close>

datatype ctype = U8 | U16 | U32 | U64 | Array nat ctype | Struct "(string \<times> ctype) list"

fun sizeof :: "ctype \<Rightarrow> nat"
  and sizeof_members :: "(string \<times> ctype) list \<Rightarrow> nat" where
  "sizeof U8 = 1"
| "sizeof U16 = 2"
| "sizeof U32 = 4"
| "sizeof U64 = 8"
| "sizeof (Array n t) = n * sizeof t"
| "sizeof (Struct ms) = sizeof_members ms"
| "sizeof_members [] = 0"
| "sizeof_members (m # ms) = sizeof (snd m) + sizeof_members ms"

fun offsetof :: "(string \<times> ctype) list \<Rightarrow> string \<Rightarrow> nat" where
  "offsetof [] name = 0"
| "offsetof (m # ms) name = (if fst m = name then 0 else sizeof (snd m) + offsetof ms name)"

fun member_size :: "(string \<times> ctype) list \<Rightarrow> string \<Rightarrow> nat" where
  "member_size [] name = 0"
| "member_size (m # ms) name = (if fst m = name then sizeof (snd m) else member_size ms name)"

text \<open>The bytes a member occupies in the bytes of its struct.\<close>

definition member_bytes :: "(string \<times> ctype) list \<Rightarrow> string \<Rightarrow> u8 list \<Rightarrow> u8 list" where
  "member_bytes ms name bs = take (member_size ms name) (drop (offsetof ms name) bs)"

definition SHA1_t :: ctype where
  "SHA1_t = Array 20 U8"

definition WiiKey_t :: ctype where
  "WiiKey_t = Array 16 U8"

definition WIAHeader1_members :: "(string \<times> ctype) list" where
  "WIAHeader1_members =
    [(''magic'', U32), (''version'', U32), (''version_compatible'', U32),
     (''header_2_size'', U32), (''header_2_hash'', SHA1_t), (''iso_file_size'', U64),
     (''wia_file_size'', U64), (''header_1_hash'', SHA1_t)]"

definition WIAHeader2_members :: "(string \<times> ctype) list" where
  "WIAHeader2_members =
    [(''disc_type'', U32), (''compression_type'', U32), (''compression_level'', U32),
     (''chunk_size'', U32), (''disc_header'', Array 0x80 U8),
     (''number_of_partition_entries'', U32), (''partition_entry_size'', U32),
     (''partition_entries_offset'', U64), (''partition_entries_hash'', SHA1_t),
     (''number_of_raw_data_entries'', U32), (''raw_data_entries_offset'', U64),
     (''raw_data_entries_size'', U32),
     (''number_of_group_entries'', U32), (''group_entries_offset'', U64),
     (''group_entries_size'', U32),
     (''compressor_data_size'', U8), (''compressor_data'', Array 7 U8)]"

definition PartitionDataEntry_members :: "(string \<times> ctype) list" where
  "PartitionDataEntry_members =
    [(''first_sector'', U32), (''number_of_sectors'', U32), (''group_index'', U32),
     (''number_of_groups'', U32)]"

definition PartitionEntry_members :: "(string \<times> ctype) list" where
  "PartitionEntry_members =
    [(''partition_key'', WiiKey_t),
     (''data_entries'', Array 2 (Struct PartitionDataEntry_members))]"

definition RawDataEntry_members :: "(string \<times> ctype) list" where
  "RawDataEntry_members =
    [(''data_offset'', U64), (''data_size'', U64), (''group_index'', U32),
     (''number_of_groups'', U32)]"

definition GroupEntry_members :: "(string \<times> ctype) list" where
  "GroupEntry_members = [(''data_offset'', U32), (''data_size'', U32)]"

definition HashExceptionEntry_members :: "(string \<times> ctype) list" where
  "HashExceptionEntry_members = [(''offset'', U16), (''hash'', SHA1_t)]"

definition PurgeSegment_members :: "(string \<times> ctype) list" where
  "PurgeSegment_members = [(''offset'', U32), (''size'', U32)]"

section \<open>The structs in memory\<close>

text \<open>
  A struct object holds the bytes that were read into it. Its integer members are what
  the host reads at the member's offset (\<open>le_word\<close>); byte arrays are kept as they are.
  Members of different structs share names (\<open>group_index\<close>, \<open>data_offset\<close>), so
  each struct is followed at once by the function that fills it.
\<close>

record WIAHeader1 =
  magic :: u32
  version :: u32
  version_compatible :: u32
  header_2_size :: u32
  header_2_hash :: "u8 list"
  iso_file_size :: u64
  wia_file_size :: u64
  header_1_hash :: "u8 list"

definition load_WIAHeader1 :: "u8 list \<Rightarrow> WIAHeader1" where
  "load_WIAHeader1 bs =
    \<lparr>magic = le_word (member_bytes WIAHeader1_members ''magic'' bs),
     version = le_word (member_bytes WIAHeader1_members ''version'' bs),
     version_compatible = le_word (member_bytes WIAHeader1_members ''version_compatible'' bs),
     header_2_size = le_word (member_bytes WIAHeader1_members ''header_2_size'' bs),
     header_2_hash = member_bytes WIAHeader1_members ''header_2_hash'' bs,
     iso_file_size = le_word (member_bytes WIAHeader1_members ''iso_file_size'' bs),
     wia_file_size = le_word (member_bytes WIAHeader1_members ''wia_file_size'' bs),
     header_1_hash = member_bytes WIAHeader1_members ''header_1_hash'' bs\<rparr>"

record WIAHeader2 =
  disc_type :: u32
  compression_type :: u32
  compression_level :: u32
  chunk_size :: u32
  disc_header :: "u8 list"
  number_of_partition_entries :: u32
  partition_entry_size :: u32
  partition_entries_offset :: u64
  partition_entries_hash :: "u8 list"
  number_of_raw_data_entries :: u32
  raw_data_entries_offset :: u64
  raw_data_entries_size :: u32
  number_of_group_entries :: u32
  group_entries_offset :: u64
  group_entries_size :: u32
  compressor_data_size :: u8
  compressor_data :: "u8 list"

definition load_WIAHeader2 :: "u8 list \<Rightarrow> WIAHeader2" where
  "load_WIAHeader2 bs =
    \<lparr>disc_type = le_word (member_bytes WIAHeader2_members ''disc_type'' bs),
     compression_type = le_word (member_bytes WIAHeader2_members ''compression_type'' bs),
     compression_level = le_word (member_bytes WIAHeader2_members ''compression_level'' bs),
     chunk_size = le_word (member_bytes WIAHeader2_members ''chunk_size'' bs),
     disc_header = member_bytes WIAHeader2_members ''disc_header'' bs,
     number_of_partition_entries =
       le_word (member_bytes WIAHeader2_members ''number_of_partition_entries'' bs),
     partition_entry_size =
       le_word (member_bytes WIAHeader2_members ''partition_entry_size'' bs),
     partition_entries_offset =
       le_word (member_bytes WIAHeader2_members ''partition_entries_offset'' bs),
     partition_entries_hash = member_bytes WIAHeader2_members ''partition_entries_hash'' bs,
     number_of_raw_data_entries =
       le_word (member_bytes WIAHeader2_members ''number_of_raw_data_entries'' bs),
     raw_data_entries_offset =
       le_word (member_bytes WIAHeader2_members ''raw_data_entries_offset'' bs),
     raw_data_entries_size =
       le_word (member_bytes WIAHeader2_members ''raw_data_entries_size'' bs),
     number_of_group_entries =
       le_word (member_bytes WIAHeader2_members ''number_of_group_entries'' bs),
     group_entries_offset =
       le_word (member_bytes WIAHeader2_members ''group_entries_offset'' bs),
     group_entries_size = le_word (member_bytes WIAHeader2_members ''group_entries_size'' bs),
     compressor_data_size =
       le_word (member_bytes WIAHeader2_members ''compressor_data_size'' bs),
     compressor_data = member_bytes WIAHeader2_members ''compressor_data'' bs\<rparr>"

record PartitionDataEntry =
  first_sector :: u32
  number_of_sectors :: u32
  group_index :: u32
  number_of_groups :: u32

definition load_PartitionDataEntry :: "u8 list \<Rightarrow> PartitionDataEntry" where
  "load_PartitionDataEntry bs =
    \<lparr>first_sector = le_word (member_bytes PartitionDataEntry_members ''first_sector'' bs),
     number_of_sectors =
       le_word (member_bytes PartitionDataEntry_members ''number_of_sectors'' bs),
     group_index = le_word (member_bytes PartitionDataEntry_members ''group_index'' bs),
     number_of_groups =
       le_word (member_bytes PartitionDataEntry_members ''number_of_groups'' bs)\<rparr>"

text \<open>Modelled from the spec: ``byte-swap every integer from big-endian to host on load'',
  for a partition data entry.\<close>

definition swap_PartitionDataEntry :: "PartitionDataEntry \<Rightarrow> PartitionDataEntry" where
  "swap_PartitionDataEntry e =
    \<lparr>first_sector = swap32 (first_sector e),
     number_of_sectors = swap32 (number_of_sectors e),
     group_index = swap32 (group_index e),
     number_of_groups = swap32 (number_of_groups e)\<rparr>"

text \<open>The partition data entry that holds, in host order, the values of the big-endian
  fields of the bytes \<open>bs\<close>.\<close>

definition host_PartitionDataEntry :: "u8 list \<Rightarrow> PartitionDataEntry" where
  "host_PartitionDataEntry bs =
    \<lparr>first_sector = be_word (member_bytes PartitionDataEntry_members ''first_sector'' bs),
     number_of_sectors =
       be_word (member_bytes PartitionDataEntry_members ''number_of_sectors'' bs),
     group_index = be_word (member_bytes PartitionDataEntry_members ''group_index'' bs),
     number_of_groups =
       be_word (member_bytes PartitionDataEntry_members ''number_of_groups'' bs)\<rparr>"

text \<open>\<open>n\<close> consecutive pieces of \<open>k\<close> elements each.\<close>

fun chunks :: "nat \<Rightarrow> nat \<Rightarrow> 'a list \<Rightarrow> 'a list list" where
  "chunks 0 k xs = []"
| "chunks (Suc n) k xs = take k xs # chunks n k (drop k xs)"

record PartitionEntry =
  partition_key :: "u8 list"
  data_entries :: "PartitionDataEntry list"

definition load_PartitionEntry :: "u8 list \<Rightarrow> PartitionEntry" where
  "load_PartitionEntry bs =
    \<lparr>partition_key = member_bytes PartitionEntry_members ''partition_key'' bs,
     data_entries =
       map load_PartitionDataEntry
         (chunks 2 (sizeof (Struct PartitionDataEntry_members))
            (member_bytes PartitionEntry_members ''data_entries'' bs))\<rparr>"

text \<open>Modelled from the spec: ``byte-swap every integer from big-endian to host on load'',
  for a partition entry; the key is an array of bytes and stays as it is.\<close>

definition swap_PartitionEntry :: "PartitionEntry \<Rightarrow> PartitionEntry" where
  "swap_PartitionEntry e =
    \<lparr>partition_key = partition_key e,
     data_entries = map swap_PartitionDataEntry (data_entries e)\<rparr>"

text \<open>The partition entry that holds, in host order, the values of the big-endian fields
  of the bytes \<open>bs\<close>.\<close>

definition host_PartitionEntry :: "u8 list \<Rightarrow> PartitionEntry" where
  "host_PartitionEntry bs =
    \<lparr>partition_key = member_bytes PartitionEntry_members ''partition_key'' bs,
     data_entries =
       map host_PartitionDataEntry
         (chunks 2 (sizeof (Struct PartitionDataEntry_members))
            (member_bytes PartitionEntry_members ''data_entries'' bs))\<rparr>"

record RawDataEntry =
  data_offset :: u64
  data_size :: u64
  group_index :: u32
  number_of_groups :: u32

definition load_RawDataEntry :: "u8 list \<Rightarrow> RawDataEntry" where
  "load_RawDataEntry bs =
    \<lparr>data_offset = le_word (member_bytes RawDataEntry_members ''data_offset'' bs),
     data_size = le_word (member_bytes RawDataEntry_members ''data_size'' bs),
     group_index = le_word (member_bytes RawDataEntry_members ''group_index'' bs),
     number_of_groups = le_word (member_bytes RawDataEntry_members ''number_of_groups'' bs)\<rparr>"

text \<open>Modelled from the spec: ``byte-swap every integer from big-endian to host on load'',
  for a raw-data entry.\<close>

definition swap_RawDataEntry :: "RawDataEntry \<Rightarrow> RawDataEntry" where
  "swap_RawDataEntry e =
    \<lparr>data_offset = swap64 (data_offset e), data_size = swap64 (data_size e),
     group_index = swap32 (group_index e), number_of_groups = swap32 (number_of_groups e)\<rparr>"

text \<open>The raw-data entry that holds, in host order, the values of the big-endian fields of
  the bytes \<open>bs\<close>.\<close>

definition host_RawDataEntry :: "u8 list \<Rightarrow> RawDataEntry" where
  "host_RawDataEntry bs =
    \<lparr>data_offset = be_word (member_bytes RawDataEntry_members ''data_offset'' bs),
     data_size = be_word (member_bytes RawDataEntry_members ''data_size'' bs),
     group_index = be_word (member_bytes RawDataEntry_members ''group_index'' bs),
     number_of_groups = be_word (member_bytes RawDataEntry_members ''number_of_groups'' bs)\<rparr>"

record GroupEntry =
  data_offset :: u32
  data_size :: u32

definition load_GroupEntry :: "u8 list \<Rightarrow> GroupEntry" where
  "load_GroupEntry bs =
    \<lparr>data_offset = le_word (member_bytes GroupEntry_members ''data_offset'' bs),
     data_size = le_word (member_bytes GroupEntry_members ''data_size'' bs)\<rparr>"

text \<open>Modelled from the spec: ``byte-swap every integer from big-endian to host on load'',
  for a group entry.\<close>

definition swap_GroupEntry :: "GroupEntry \<Rightarrow> GroupEntry" where
  "swap_GroupEntry e =
    \<lparr>data_offset = swap32 (data_offset e), data_size = swap32 (data_size e)\<rparr>"

text \<open>The group entry that holds, in host order, the values of the big-endian fields of the
  bytes \<open>bs\<close>.\<close>

definition host_GroupEntry :: "u8 list \<Rightarrow> GroupEntry" where
  "host_GroupEntry bs =
    \<lparr>data_offset = be_word (member_bytes GroupEntry_members ''data_offset'' bs),
     data_size = be_word (member_bytes GroupEntry_members ''data_size'' bs)\<rparr>"

section \<open>SHA-1\<close>

text \<open>Modelled from the spec: the hashes of the format are SHA-1 digests. The digest is
  computed by a library outside the decoder, of which the sources hold nothing; it is
  written out here after the standard (FIPS 180-4), so that the checks of a concrete file
  can be run. The message schedule is kept as a window of the last sixteen words, oldest
  first.
\<close>

text \<open>Modelled from the spec: SHA-1, the four bytes of a word, most significant first.\<close>

definition be_bytes32 :: "u32 \<Rightarrow> u8 list" where
  "be_bytes32 w =
     [ucast (drop_bit 24 w), ucast (drop_bit 16 w AND 0xFF), ucast (drop_bit 8 w AND 0xFF),
      ucast (w AND 0xFF)]"

text \<open>Modelled from the spec: SHA-1, the eight bytes of the message length.\<close>

definition be_bytes64 :: "u64 \<Rightarrow> u8 list" where
  "be_bytes64 w = be_bytes32 (ucast (drop_bit 32 w)) @ be_bytes32 (ucast (w AND 0xFFFFFFFF))"

text \<open>Modelled from the spec: SHA-1, the padding: a one bit, zeros up to 56 bytes modulo 64,
  and the length of the message in bits.\<close>

definition sha1_pad :: "u8 list \<Rightarrow> u8 list" where
  "sha1_pad msg = msg @ [0x80] @ replicate ((119 - length msg mod 64) mod 64) 0
     @ be_bytes64 (of_nat (8 * length msg))"

text \<open>Modelled from the spec: SHA-1, the rotation of a word to the left.\<close>

definition rotl32 :: "nat \<Rightarrow> u32 \<Rightarrow> u32" where
  "rotl32 n x = push_bit n x OR drop_bit (32 - n) x"

text \<open>Modelled from the spec: SHA-1, the function of rounds 0 to 19.\<close>

definition sha1_ch :: "u32 \<Rightarrow> u32 \<Rightarrow> u32 \<Rightarrow> u32" where
  "sha1_ch b c d = (b AND c) OR (NOT b AND d)"

text \<open>Modelled from the spec: SHA-1, the function of rounds 20 to 39 and 60 to 79.\<close>

definition sha1_parity :: "u32 \<Rightarrow> u32 \<Rightarrow> u32 \<Rightarrow> u32" where
  "sha1_parity b c d = b XOR c XOR d"

text \<open>Modelled from the spec: SHA-1, the function of rounds 40 to 59.\<close>

definition sha1_maj :: "u32 \<Rightarrow> u32 \<Rightarrow> u32 \<Rightarrow> u32" where
  "sha1_maj b c d = (b AND c) OR (b AND d) OR (c AND d)"

text \<open>Modelled from the spec: SHA-1, the function of round \<open>t\<close>.\<close>

definition sha1_f :: "nat \<Rightarrow> u32 \<Rightarrow> u32 \<Rightarrow> u32 \<Rightarrow> u32" where
  "sha1_f t b c d =
     (if t < 20 then sha1_ch b c d else if t < 40 then sha1_parity b c d
      else if t < 60 then sha1_maj b c d else sha1_parity b c d)"

text \<open>Modelled from the spec: SHA-1, the constant of round \<open>t\<close>.\<close>

definition sha1_k :: "nat \<Rightarrow> u32" where
  "sha1_k t = (if t < 20 then 0x5A827999 else if t < 40 then 0x6ED9EBA1
               else if t < 60 then 0x8F1BBCDC else 0xCA62C1D6)"

type_synonym sha1_state = "u32 \<times> u32 \<times> u32 \<times> u32 \<times> u32"

text \<open>Modelled from the spec: SHA-1, word \<open>t\<close> of the message schedule, from the window of
  the last sixteen words.\<close>

definition sha1_w :: "nat \<Rightarrow> u32 list \<Rightarrow> u32" where
  "sha1_w t win = (if t < 16 then win ! t
                   else rotl32 1 (win ! 13 XOR win ! 8 XOR win ! 2 XOR win ! 0))"

text \<open>Modelled from the spec: SHA-1, the window after round \<open>t\<close>.\<close>

definition sha1_win :: "nat \<Rightarrow> u32 list \<Rightarrow> u32 list" where
  "sha1_win t win = (if t < 16 then win else tl win @ [sha1_w t win])"

text \<open>Modelled from the spec: SHA-1, one round on the five working variables.\<close>

fun sha1_round :: "nat \<Rightarrow> sha1_state \<Rightarrow> u32 \<Rightarrow> sha1_state" where
  "sha1_round t (a, b, c, d, e) w =
     (rotl32 5 a + sha1_f t b c d + e + sha1_k t + w, a, rotl32 30 b, c, d)"

text \<open>Modelled from the spec: SHA-1, \<open>n\<close> rounds from round \<open>t\<close> on.\<close>

fun sha1_loop :: "nat \<Rightarrow> nat \<Rightarrow> sha1_state \<Rightarrow> u32 list \<Rightarrow> sha1_state" where
  "sha1_loop 0 t st win = st"
| "sha1_loop (Suc n) t st win =
     sha1_loop n (t + 1) (sha1_round t st (sha1_w t win)) (sha1_win t win)"

text \<open>Modelled from the spec: SHA-1, the addition of the working variables to the hash value.\<close>

fun sha1_add :: "sha1_state \<Rightarrow> sha1_state \<Rightarrow> sha1_state" where
  "sha1_add (h0, h1, h2, h3, h4) (a, b, c, d, e) = (h0 + a, h1 + b, h2 + c, h3 + d, h4 + e)"

text \<open>Modelled from the spec: SHA-1, the compression of one block of 64 bytes.\<close>

definition sha1_block :: "sha1_state \<Rightarrow> u8 list \<Rightarrow> sha1_state" where
  "sha1_block h blk = sha1_add h (sha1_loop 80 0 h (map be_word (chunks 16 4 blk)))"

text \<open>Modelled from the spec: SHA-1, the initial hash value.\<close>

definition sha1_init :: sha1_state where
  "sha1_init = (0x67452301, 0xEFCDAB89, 0x98BADCFE, 0x10325476, 0xC3D2E1F0)"

text \<open>Modelled from the spec: SHA-1, the 20 bytes of the hash value.\<close>

fun sha1_digest :: "sha1_state \<Rightarrow> u8 list" where
  "sha1_digest (a, b, c, d, e) = concat (map be_bytes32 [a, b, c, d, e])"

text \<open>Modelled from the spec: SHA-1, the digest of a message.\<close>

definition sha1 :: "u8 list \<Rightarrow> u8 list" where
  "sha1 msg =
     sha1_digest (foldl sha1_block sha1_init
        (chunks (length (sha1_pad msg) div 64) 64 (sha1_pad msg)))"

section \<open>The decoder\<close>

definition WIA_MAGIC :: u32 where
  "WIA_MAGIC = 0x01414957"

definition WIA_VERSION :: u32 where
  "WIA_VERSION = 0x01000000"

definition WIA_VERSION_WRITE_COMPATIBLE :: u32 where
  "WIA_VERSION_WRITE_COMPATIBLE = 0x01000000"

definition WIA_VERSION_READ_COMPATIBLE :: u32 where
  "WIA_VERSION_READ_COMPATIBLE = 0x00080000"

text \<open>
  \<open>enum class CompressionType : u32\<close>; the enumerator \<open>None\<close> is primed, the name being
  taken by the option type.
\<close>

datatype CompressionType = None' | Purge | Bzip2 | LZMA | LZMA2

fun CompressionType_value :: "CompressionType \<Rightarrow> u32" where
  "CompressionType_value None' = 0"
| "CompressionType_value Purge = 1"
| "CompressionType_value Bzip2 = 2"
| "CompressionType_value LZMA = 3"
| "CompressionType_value LZMA2 = 4"

record WIAFileReader =
  m_valid :: bool
  m_compression_type :: CompressionType
  m_file :: "u8 list"
  m_header_1 :: WIAHeader1
  m_header_2 :: WIAHeader2
  m_partition_entries :: "PartitionEntry list"
  m_raw_data_entries :: "RawDataEntry list"
  m_group_entries :: "GroupEntry list"

definition GetRawSize :: "WIAFileReader \<Rightarrow> u64" where
  "GetRawSize r = swap64 (wia_file_size (m_header_1 r))"

definition GetDataSize :: "WIAFileReader \<Rightarrow> u64" where
  "GetDataSize r = swap64 (iso_file_size (m_header_1 r))"

definition IsDataSizeAccurate :: "WIAFileReader \<Rightarrow> bool" where
  "IsDataSizeAccurate r = True"

text \<open>The \<open>u32\<close> that \<open>swap32\<close> returns is widened to the \<open>u64\<close> of the return type.\<close>

definition GetBlockSize :: "WIAFileReader \<Rightarrow> u64" where
  "GetBlockSize r = ucast (swap32 (chunk_size (m_header_2 r)))"

definition HasFastRandomAccessInBlock :: "WIAFileReader \<Rightarrow> bool" where
  "HasFastRandomAccessInBlock r = False"

section \<open>Opening a file\<close>

text \<open>
  \<open>Create\<close> and \<open>Initialize\<close> are declared in the header, but their bodies are not among
  the sources, so opening a file is modelled from the specification (its sections 4.1, 6.1
  and 7), in the order in which it lists the checks. One sentence of it cannot be followed:
  it has every integer byte-swapped on load, whereas \<open>GetRawSize\<close>, \<open>GetDataSize\<close> and
  \<open>GetBlockSize\<close> swap the member they return on every call and \<open>WIA_MAGIC\<close> is the
  magic in its byteswapped form. The two headers are therefore filled with the bytes of the
  file as they are (\<open>load_WIAHeader1\<close>, \<open>load_WIAHeader2\<close>), which is what these accessors
  need. For the three tables the sources hold no accessor, and their entries are byte-swapped
  on load, as the specification says.
\<close>

text \<open>Modelled from the spec: the error kinds of its section 7 (the header declares none,
  \<open>Create\<close> returning a pointer and \<open>Initialize\<close> a \<open>bool\<close>).\<close>

datatype error = UnsupportedFormat | Corrupt | OutOfRange | IOError | Unsupported

text \<open>Modelled from the spec: a read of \<open>n\<close> bytes at offset \<open>off\<close> of the file; a short
  read of the underlying file is an \<open>IOError\<close>.\<close>

definition read_bytes :: "u8 list \<Rightarrow> nat \<Rightarrow> nat \<Rightarrow> error + u8 list" where
  "read_bytes f off n = (if off + n \<le> length f then Inr (take n (drop off f)) else Inl IOError)"

text \<open>Modelled from the spec: the bytes of a struct ``with the hash field zeroed'', for
  a member of any name.\<close>

definition zero_member :: "(string \<times> ctype) list \<Rightarrow> string \<Rightarrow> u8 list \<Rightarrow> u8 list" where
  "zero_member ms name bs =
     take (offsetof ms name) bs @ replicate (member_size ms name) 0
       @ drop (offsetof ms name + member_size ms name) bs"

text \<open>Modelled from the spec: ``read Header1; verify magic; fail with UnsupportedFormat on
  mismatch'', then the first of the two hashes, ``SHA-1 of the first 0x48 bytes with the hash
  field zeroed during computation'', a mismatch being \<open>Corrupt\<close>.\<close>

definition read_header_1 :: "u8 list \<Rightarrow> error + WIAHeader1" where
  "read_header_1 f =
     (case read_bytes f 0 (sizeof (Struct WIAHeader1_members)) of
        Inl e \<Rightarrow> Inl e
      | Inr b \<Rightarrow>
          if magic (load_WIAHeader1 b) \<noteq> WIA_MAGIC then Inl UnsupportedFormat
          else if header_1_hash (load_WIAHeader1 b)
                   \<noteq> sha1 (zero_member WIAHeader1_members ''header_1_hash'' b)
          then Inl Corrupt
          else Inr (load_WIAHeader1 b))"

text \<open>Modelled from the spec: the second hash (``SHA-1 of the next header_2_size bytes'',
  a mismatch being \<open>Corrupt\<close>), then ``reject if version_compatible is below the
  implementer's read-compat floor'' (a version outside the read-compat window is
  \<open>UnsupportedFormat\<close>), then ``read Header2''.\<close>

definition read_header_2 :: "u8 list \<Rightarrow> WIAHeader1 \<Rightarrow> error + WIAHeader2" where
  "read_header_2 f h1 =
     (case read_bytes f (sizeof (Struct WIAHeader1_members)) (unat (swap32 (header_2_size h1))) of
        Inl e \<Rightarrow> Inl e
      | Inr hb \<Rightarrow>
          if header_2_hash h1 \<noteq> sha1 hb then Inl Corrupt
          else if swap32 (version_compatible h1) < WIA_VERSION_READ_COMPATIBLE
          then Inl UnsupportedFormat
          else (case read_bytes f (sizeof (Struct WIAHeader1_members))
                       (sizeof (Struct WIAHeader2_members)) of
                  Inl e \<Rightarrow> Inl e
                | Inr b \<Rightarrow> Inr (load_WIAHeader2 b)))"

text \<open>Modelled from the spec: the conversion of the header's \<open>compression_type\<close> to the
  enumeration; a value that no enumerator has gives nothing.\<close>

definition to_CompressionType :: "u32 \<Rightarrow> CompressionType option" where
  "to_CompressionType v =
     (if v = 0 then Some None' else if v = 1 then Some Purge else if v = 2 then Some Bzip2
      else if v = 3 then Some LZMA else if v = 4 then Some LZMA2 else None)"

text \<open>Modelled from the spec: ``enumerated compression types ... any other value \<open>\<Rightarrow>\<close>
  UnsupportedFormat'' and ``enumerated disc types: 1=GameCube, 2=Wii; others \<open>\<Rightarrow>\<close>
  UnsupportedFormat''.\<close>

definition check_types :: "WIAHeader2 \<Rightarrow> error + CompressionType" where
  "check_types h2 =
     (case to_CompressionType (swap32 (compression_type h2)) of
        None \<Rightarrow> Inl UnsupportedFormat
      | Some ct \<Rightarrow>
          if swap32 (disc_type h2) \<noteq> 1 \<and> swap32 (disc_type h2) \<noteq> 2 then Inl UnsupportedFormat
          else Inr ct)"

text \<open>Modelled from the spec: the partition table, \<open>number_of_partition_entries\<close> times
  \<open>partition_entry_size\<close> bytes at \<open>partition_entries_offset\<close>, ``validated via
  partition_entries_hash''; a table whose entries are too short for a partition entry is
  malformed, hence \<open>Corrupt\<close>. Every entry is read and its integers are byte-swapped.\<close>

definition read_partition_entries :: "u8 list \<Rightarrow> WIAHeader2 \<Rightarrow> error + PartitionEntry list" where
  "read_partition_entries f h2 =
     (case read_bytes f (unat (swap64 (partition_entries_offset h2)))
             (unat (swap32 (number_of_partition_entries h2))
                * unat (swap32 (partition_entry_size h2))) of
        Inl e \<Rightarrow> Inl e
      | Inr b \<Rightarrow>
          if partition_entries_hash h2 \<noteq> sha1 b then Inl Corrupt
          else if 0 < unat (swap32 (number_of_partition_entries h2))
                  \<and> unat (swap32 (partition_entry_size h2)) < sizeof (Struct PartitionEntry_members)
          then Inl Corrupt
          else Inr (map (\<lambda>bs. swap_PartitionEntry (load_PartitionEntry bs))
                      (chunks (unat (swap32 (number_of_partition_entries h2)))
                         (unat (swap32 (partition_entry_size h2))) b)))"

text \<open>Modelled from the spec: the raw-data table, ``count \<open>\<times>\<close> 0x18 at
  raw_data_entries_offset''. Every entry is read and its integers are byte-swapped.\<close>

definition read_raw_data_entries :: "u8 list \<Rightarrow> WIAHeader2 \<Rightarrow> error + RawDataEntry list" where
  "read_raw_data_entries f h2 =
     (case read_bytes f (unat (swap64 (raw_data_entries_offset h2)))
             (unat (swap32 (number_of_raw_data_entries h2))
                * sizeof (Struct RawDataEntry_members)) of
        Inl e \<Rightarrow> Inl e
      | Inr b \<Rightarrow>
          Inr (map (\<lambda>bs. swap_RawDataEntry (load_RawDataEntry bs))
                 (chunks (unat (swap32 (number_of_raw_data_entries h2)))
                    (sizeof (Struct RawDataEntry_members)) b)))"

text \<open>Modelled from the spec: the group table, ``count \<open>\<times>\<close> 0x08 at
  group_entries_offset''. Every entry is read and its integers are byte-swapped.\<close>

definition read_group_entries :: "u8 list \<Rightarrow> WIAHeader2 \<Rightarrow> error + GroupEntry list" where
  "read_group_entries f h2 =
     (case read_bytes f (unat (swap64 (group_entries_offset h2)))
             (unat (swap32 (number_of_group_entries h2))
                * sizeof (Struct GroupEntry_members)) of
        Inl e \<Rightarrow> Inl e
      | Inr b \<Rightarrow>
          Inr (map (\<lambda>bs. swap_GroupEntry (load_GroupEntry bs))
                 (chunks (unat (swap32 (number_of_group_entries h2)))
                    (sizeof (Struct GroupEntry_members)) b)))"

text \<open>Modelled from the spec: \<open>open(file) \<rightarrow> Decoder | Error\<close>, which ``validates and loads
  tables''; it stands for \<open>Create\<close> and \<open>Initialize\<close>, whose bodies are missing.\<close>

definition WIA_open :: "u8 list \<Rightarrow> error + WIAFileReader" where
  "WIA_open f =
     (case read_header_1 f of Inl e \<Rightarrow> Inl e | Inr h1 \<Rightarrow>
      case read_header_2 f h1 of Inl e \<Rightarrow> Inl e | Inr h2 \<Rightarrow>
      case check_types h2 of Inl e \<Rightarrow> Inl e | Inr ct \<Rightarrow>
      case read_partition_entries f h2 of Inl e \<Rightarrow> Inl e | Inr ps \<Rightarrow>
      case read_raw_data_entries f h2 of Inl e \<Rightarrow> Inl e | Inr rs \<Rightarrow>
      case read_group_entries f h2 of Inl e \<Rightarrow> Inl e | Inr gs \<Rightarrow>
        Inr \<lparr>m_valid = True, m_compression_type = ct, m_file = f,
             m_header_1 = h1, m_header_2 = h2, m_partition_entries = ps,
             m_raw_data_entries = rs, m_group_entries = gs\<rparr>)"

section \<open>Concrete files\<close>

text \<open>
  \<open>file0\<close> is a complete file of 0x144 bytes: both headers, no partition, one raw-data
  entry that covers the 0x200000 bytes of the disc and one zero-filled group. Its
  \<open>version_compatible\<close> is exactly the read floor, its compression type is Purge.
\<close>

definition file0 :: "u8 list" where
  "file0 =
    [0x57, 0x49, 0x41, 0x01, 0x01, 0x00, 0x00, 0x00, 0x00, 0x08, 0x00, 0x00, 0x00, 0x00, 0x00, 0xDC,
     0x59, 0x9E, 0xE3, 0xA0, 0x90, 0x9C, 0xF3, 0x74, 0xE4, 0x17, 0x6D, 0x9F, 0x86, 0xEA, 0xA6, 0x19,
     0xE3, 0xA9, 0xAD, 0x59, 0x00, 0x00, 0x00, 0x00, 0x00, 0x20, 0x00, 0x00, 0x00, 0x00, 0x00, 0x00,
     0x00, 0x00, 0x01, 0x44, 0x49, 0x79, 0x83, 0xE8, 0x98, 0x06, 0x16, 0x6C, 0x21, 0xBF, 0x06, 0x67,
     0x96, 0xDD, 0x63, 0x01, 0xC9, 0x13, 0x6E, 0x40, 0x00, 0x00, 0x00, 0x01, 0x00, 0x00, 0x00, 0x01,
     0x00, 0x00, 0x00, 0x00, 0x00, 0x20, 0x00, 0x00, 0x00, 0x00, 0x00, 0x00, 0x00, 0x00, 0x00, 0x00,
     0x00, 0x00, 0x00, 0x00, 0x00, 0x00, 0x00, 0x00, 0x00, 0x00, 0x00, 0x00, 0x00, 0x00, 0x00, 0x00,
     0x00, 0x00, 0x00, 0x00, 0xC2, 0x33, 0x9F, 0x3D, 0x00, 0x00, 0x00, 0x00, 0x00, 0x00, 0x00, 0x00,
     0x00, 0x00, 0x00, 0x00, 0x00, 0x00, 0x00, 0x00, 0x00, 0x00, 0x00, 0x00, 0x00, 0x00, 0x00, 0x00,
     0x00, 0x00, 0x00, 0x00, 0x00, 0x00, 0x00, 0x00, 0x00, 0x00, 0x00, 0x00, 0x00, 0x00, 0x00, 0x00,
     0x00, 0x00, 0x00, 0x00, 0x00, 0x00, 0x00, 0x00, 0x00, 0x00, 0x00, 0x00, 0x00, 0x00, 0x00, 0x00,
     0x00, 0x00, 0x00, 0x00, 0x00, 0x00, 0x00, 0x00, 0x00, 0x00, 0x00, 0x00, 0x00, 0x00, 0x00, 0x00,
     0x00, 0x00, 0x00, 0x00, 0x00, 0x00, 0x00, 0x00, 0x00, 0x00, 0x00, 0x00, 0x00, 0x00, 0x00, 0x00,
     0x00, 0x00, 0x00, 0x00, 0x00, 0x00, 0x00, 0x00, 0x00, 0x00, 0x00, 0x00, 0x00, 0x00, 0x00, 0x30,
     0x00, 0x00, 0x00, 0x00, 0x00, 0x00, 0x01, 0x24, 0xDA, 0x39, 0xA3, 0xEE, 0x5E, 0x6B, 0x4B, 0x0D,
     0x32, 0x55, 0xBF, 0xEF, 0x95, 0x60, 0x18, 0x90, 0xAF, 0xD8, 0x07, 0x09, 0x00, 0x00, 0x00, 0x01,
     0x00, 0x00, 0x00, 0x00, 0x00, 0x00, 0x01, 0x24, 0x00, 0x00, 0x00, 0x18, 0x00, 0x00, 0x00, 0x01,
     0x00, 0x00, 0x00, 0x00, 0x00, 0x00, 0x01, 0x3C, 0x00, 0x00, 0x00, 0x08, 0x00, 0x00, 0x00, 0x00,
     0x00, 0x00, 0x00, 0x00, 0x00, 0x00, 0x00, 0x00, 0x00, 0x00, 0x00, 0x00, 0x00, 0x00, 0x00, 0x00,
     0x00, 0x20, 0x00, 0x00, 0x00, 0x00, 0x00, 0x00, 0x00, 0x00, 0x00, 0x01, 0x00, 0x00, 0x00, 0x00,
     0x00, 0x00, 0x00, 0x00]"

text \<open>What opening \<open>file0\<close> returns.\<close>

definition decoder0 :: WIAFileReader where
  "decoder0 =
    \<lparr>m_valid = True, m_compression_type = Purge, m_file = file0,
     m_header_1 = load_WIAHeader1 (take 0x48 file0),
     m_header_2 = load_WIAHeader2 (take 0xDC (drop 0x48 file0)),
     m_partition_entries = [],
     m_raw_data_entries = [host_RawDataEntry (take 0x18 (drop 0x124 file0))],
     m_group_entries = [host_GroupEntry (take 0x08 (drop 0x13C file0))]\<rparr>"

text \<open>\<open>file1\<close> is \<open>file0\<close> with the compression type 5 and both header hashes recomputed.\<close>

definition file1 :: "u8 list" where
  "file1 =
    [0x57, 0x49, 0x41, 0x01, 0x01, 0x00, 0x00, 0x00, 0x00, 0x08, 0x00, 0x00, 0x00, 0x00, 0x00, 0xDC,
     0x2C, 0x78, 0x5A, 0x69, 0x64, 0xA3, 0xB0, 0x7C, 0xE5, 0x0E, 0x20, 0x89, 0x00, 0xE2, 0xE2, 0xA3,
     0x49, 0x5A, 0xE6, 0x5F, 0x00, 0x00, 0x00, 0x00, 0x00, 0x20, 0x00, 0x00, 0x00, 0x00, 0x00, 0x00,
     0x00, 0x00, 0x01, 0x44, 0xE2, 0x5B, 0xC0, 0x6C, 0x67, 0xF6, 0xAD, 0x9E, 0xEA, 0xA4, 0xED, 0xDC,
     0x5C, 0x75, 0x50, 0xE8, 0x25, 0x33, 0x45, 0x0C, 0x00, 0x00, 0x00, 0x01, 0x00, 0x00, 0x00, 0x05,
     0x00, 0x00, 0x00, 0x00, 0x00, 0x20, 0x00, 0x00, 0x00, 0x00, 0x00, 0x00, 0x00, 0x00, 0x00, 0x00,
     0x00, 0x00, 0x00, 0x00, 0x00, 0x00, 0x00, 0x00, 0x00, 0x00, 0x00, 0x00, 0x00, 0x00, 0x00, 0x00,
     0x00, 0x00, 0x00, 0x00, 0xC2, 0x33, 0x9F, 0x3D, 0x00, 0x00, 0x00, 0x00, 0x00, 0x00, 0x00, 0x00,
     0x00, 0x00, 0x00, 0x00, 0x00, 0x00, 0x00, 0x00, 0x00, 0x00, 0x00, 0x00, 0x00, 0x00, 0x00, 0x00,
     0x00, 0x00, 0x00, 0x00, 0x00, 0x00, 0x00, 0x00, 0x00, 0x00, 0x00, 0x00, 0x00, 0x00, 0x00, 0x00,
     0x00, 0x00, 0x00, 0x00, 0x00, 0x00, 0x00, 0x00, 0x00, 0x00, 0x00, 0x00, 0x00, 0x00, 0x00, 0x00,
     0x00, 0x00, 0x00, 0x00, 0x00, 0x00, 0x00, 0x00, 0x00, 0x00, 0x00, 0x00, 0x00, 0x00, 0x00, 0x00,
     0x00, 0x00, 0x00, 0x00, 0x00, 0x00, 0x00, 0x00, 0x00, 0x00, 0x00, 0x00, 0x00, 0x00, 0x00, 0x00,
     0x00, 0x00, 0x00, 0x00, 0x00, 0x00, 0x00, 0x00, 0x00, 0x00, 0x00, 0x00, 0x00, 0x00, 0x00, 0x30,
     0x00, 0x00, 0x00, 0x00, 0x00, 0x00, 0x01, 0x24, 0xDA, 0x39, 0xA3, 0xEE, 0x5E, 0x6B, 0x4B, 0x0D,
     0x32, 0x55, 0xBF, 0xEF, 0x95, 0x60, 0x18, 0x90, 0xAF, 0xD8, 0x07, 0x09, 0x00, 0x00, 0x00, 0x01,
     0x00, 0x00, 0x00, 0x00, 0x00, 0x00, 0x01, 0x24, 0x00, 0x00, 0x00, 0x18, 0x00, 0x00, 0x00, 0x01,
     0x00, 0x00, 0x00, 0x00, 0x00, 0x00, 0x01, 0x3C, 0x00, 0x00, 0x00, 0x08, 0x00, 0x00, 0x00, 0x00,
     0x00, 0x00, 0x00, 0x00, 0x00, 0x00, 0x00, 0x00, 0x00, 0x00, 0x00, 0x00, 0x00, 0x00, 0x00, 0x00,
     0x00, 0x20, 0x00, 0x00, 0x00, 0x00, 0x00, 0x00, 0x00, 0x00, 0x00, 0x01, 0x00, 0x00, 0x00, 0x00,
     0x00, 0x00, 0x00, 0x00]"

text \<open>\<open>file2\<close> is \<open>file0\<close> with \<open>version_compatible\<close> 0x0007FFFF, one below the read
  floor, and the hash of the first header recomputed.\<close>

definition file2 :: "u8 list" where
  "file2 =
    [0x57, 0x49, 0x41, 0x01, 0x01, 0x00, 0x00, 0x00, 0x00, 0x07, 0xFF, 0xFF, 0x00, 0x00, 0x00, 0xDC,
     0x59, 0x9E, 0xE3, 0xA0, 0x90, 0x9C, 0xF3, 0x74, 0xE4, 0x17, 0x6D, 0x9F, 0x86, 0xEA, 0xA6, 0x19,
     0xE3, 0xA9, 0xAD, 0x59, 0x00, 0x00, 0x00, 0x00, 0x00, 0x20, 0x00, 0x00, 0x00, 0x00, 0x00, 0x00,
     0x00, 0x00, 0x01, 0x44, 0xD1, 0x31, 0x5C, 0x8F, 0xB1, 0x3C, 0xF0, 0x5A, 0x05, 0xE4, 0xBE, 0xA9,
     0x31, 0x5E, 0x7E, 0xA4, 0x5F, 0x41, 0xFD, 0x3C, 0x00, 0x00, 0x00, 0x01, 0x00, 0x00, 0x00, 0x01,
     0x00, 0x00, 0x00, 0x00, 0x00, 0x20, 0x00, 0x00, 0x00, 0x00, 0x00, 0x00, 0x00, 0x00, 0x00, 0x00,
     0x00, 0x00, 0x00, 0x00, 0x00, 0x00, 0x00, 0x00, 0x00, 0x00, 0x00, 0x00, 0x00, 0x00, 0x00, 0x00,
     0x00, 0x00, 0x00, 0x00, 0xC2, 0x33, 0x9F, 0x3D, 0x00, 0x00, 0x00, 0x00, 0x00, 0x00, 0x00, 0x00,
     0x00, 0x00, 0x00, 0x00, 0x00, 0x00, 0x00, 0x00, 0x00, 0x00, 0x00, 0x00, 0x00, 0x00, 0x00, 0x00,
     0x00, 0x00, 0x00, 0x00, 0x00, 0x00, 0x00, 0x00, 0x00, 0x00, 0x00, 0x00, 0x00, 0x00, 0x00, 0x00,
     0x00, 0x00, 0x00, 0x00, 0x00, 0x00, 0x00, 0x00, 0x00, 0x00, 0x00, 0x00, 0x00, 0x00, 0x00, 0x00,
     0x00, 0x00, 0x00, 0x00, 0x00, 0x00, 0x00, 0x00, 0x00, 0x00, 0x00, 0x00, 0x00, 0x00, 0x00, 0x00,
     0x00, 0x00, 0x00, 0x00, 0x00, 0x00, 0x00, 0x00, 0x00, 0x00, 0x00, 0x00, 0x00, 0x00, 0x00, 0x00,
     0x00, 0x00, 0x00, 0x00, 0x00, 0x00, 0x00, 0x00, 0x00, 0x00, 0x00, 0x00, 0x00, 0x00, 0x00, 0x30,
     0x00, 0x00, 0x00, 0x00, 0x00, 0x00, 0x01, 0x24, 0xDA, 0x39, 0xA3, 0xEE, 0x5E, 0x6B, 0x4B, 0x0D,
     0x32, 0x55, 0xBF, 0xEF, 0x95, 0x60, 0x18, 0x90, 0xAF, 0xD8, 0x07, 0x09, 0x00, 0x00, 0x00, 0x01,
     0x00, 0x00, 0x00, 0x00, 0x00, 0x00, 0x01, 0x24, 0x00, 0x00, 0x00, 0x18, 0x00, 0x00, 0x00, 0x01,
     0x00, 0x00, 0x00, 0x00, 0x00, 0x00, 0x01, 0x3C, 0x00, 0x00, 0x00, 0x08, 0x00, 0x00, 0x00, 0x00,
     0x00, 0x00, 0x00, 0x00, 0x00, 0x00, 0x00, 0x00, 0x00, 0x00, 0x00, 0x00, 0x00, 0x00, 0x00, 0x00,
     0x00, 0x20, 0x00, 0x00, 0x00, 0x00, 0x00, 0x00, 0x00, 0x00, 0x00, 0x01, 0x00, 0x00, 0x00, 0x00,
     0x00, 0x00, 0x00, 0x00]"

text \<open>\<open>file3\<close> is \<open>file0\<close> with the first byte 0x58 instead of 0x57, so that the host
  reads the magic 0x01414958; the hash of the first header is recomputed.\<close>

definition file3 :: "u8 list" where
  "file3 =
    [0x58, 0x49, 0x41, 0x01, 0x01, 0x00, 0x00, 0x00, 0x00, 0x08, 0x00, 0x00, 0x00, 0x00, 0x00, 0xDC,
     0x59, 0x9E, 0xE3, 0xA0, 0x90, 0x9C, 0xF3, 0x74, 0xE4, 0x17, 0x6D, 0x9F, 0x86, 0xEA, 0xA6, 0x19,
     0xE3, 0xA9, 0xAD, 0x59, 0x00, 0x00, 0x00, 0x00, 0x00, 0x20, 0x00, 0x00, 0x00, 0x00, 0x00, 0x00,
     0x00, 0x00, 0x01, 0x44, 0xDF, 0x20, 0xB5, 0xF8, 0xD6, 0xFB, 0xAA, 0x6F, 0x52, 0xE9, 0xDF, 0x0A,
     0xC6, 0xF6, 0x82, 0xF3, 0x6E, 0x53, 0x59, 0xD1, 0x00, 0x00, 0x00, 0x01, 0x00, 0x00, 0x00, 0x01,
     0x00, 0x00, 0x00, 0x00, 0x00, 0x20, 0x00, 0x00, 0x00, 0x00, 0x00, 0x00, 0x00, 0x00, 0x00, 0x00,
     0x00, 0x00, 0x00, 0x00, 0x00, 0x00, 0x00, 0x00, 0x00, 0x00, 0x00, 0x00, 0x00, 0x00, 0x00, 0x00,
     0x00, 0x00, 0x00, 0x00, 0xC2, 0x33, 0x9F, 0x3D, 0x00, 0x00, 0x00, 0x00, 0x00, 0x00, 0x00, 0x00,
     0x00, 0x00, 0x00, 0x00, 0x00, 0x00, 0x00, 0x00, 0x00, 0x00, 0x00, 0x00, 0x00, 0x00, 0x00, 0x00,
     0x00, 0x00, 0x00, 0x00, 0x00, 0x00, 0x00, 0x00, 0x00, 0x00, 0x00, 0x00, 0x00, 0x00, 0x00, 0x00,
     0x00, 0x00, 0x00, 0x00, 0x00, 0x00, 0x00, 0x00, 0x00, 0x00, 0x00, 0x00, 0x00, 0x00, 0x00, 0x00,
     0x00, 0x00, 0x00, 0x00, 0x00, 0x00, 0x00, 0x00, 0x00, 0x00, 0x00, 0x00, 0x00, 0x00, 0x00, 0x00,
     0x00, 0x00, 0x00, 0x00, 0x00, 0x00, 0x00, 0x00, 0x00, 0x00, 0x00, 0x00, 0x00, 0x00, 0x00, 0x00,
     0x00, 0x00, 0x00, 0x00, 0x00, 0x00, 0x00, 0x00, 0x00, 0x00, 0x00, 0x00, 0x00, 0x00, 0x00, 0x30,
     0x00, 0x00, 0x00, 0x00, 0x00, 0x00, 0x01, 0x24, 0xDA, 0x39, 0xA3, 0xEE, 0x5E, 0x6B, 0x4B, 0x0D,
     0x32, 0x55, 0xBF, 0xEF, 0x95, 0x60, 0x18, 0x90, 0xAF, 0xD8, 0x07, 0x09, 0x00, 0x00, 0x00, 0x01,
     0x00, 0x00, 0x00, 0x00, 0x00, 0x00, 0x01, 0x24, 0x00, 0x00, 0x00, 0x18, 0x00, 0x00, 0x00, 0x01,
     0x00, 0x00, 0x00, 0x00, 0x00, 0x00, 0x01, 0x3C, 0x00, 0x00, 0x00, 0x08, 0x00, 0x00, 0x00, 0x00,
     0x00, 0x00, 0x00, 0x00, 0x00, 0x00, 0x00, 0x00, 0x00, 0x00, 0x00, 0x00, 0x00, 0x00, 0x00, 0x00,
     0x00, 0x20, 0x00, 0x00, 0x00, 0x00, 0x00, 0x00, 0x00, 0x00, 0x00, 0x01, 0x00, 0x00, 0x00, 0x00,
     0x00, 0x00, 0x00, 0x00]"

section \<open>Byte order\<close>

lemma bit_u8_ge [simp]: "8 \<le> n \<Longrightarrow> \<not> bit (a::u8) n"
  using bit_imp_le_length [of a n] by auto

lemma bit_le_word:
  "bit (le_word bs :: 'a::len word) n \<longleftrightarrow>
     n < LENGTH('a) \<and> n div 8 < length bs \<and> bit (bs ! (n div 8)) (n mod 8)"
proof (induction bs arbitrary: n)
  case Nil
  then show ?case by simp
next
  case (Cons b bs)
  show ?case
  proof (cases "n < 8")
    case True
    then show ?thesis by (auto simp: bit_simps dest: bit_imp_le_length)
  next
    case False
    then have "n div 8 = Suc ((n - 8) div 8)" "n mod 8 = (n - 8) mod 8"
      by (simp_all add: le_div_geq le_mod_geq)
    with False show ?thesis by (auto simp: bit_simps Cons.IH)
  qed
qed

lemma bit_be_word:
  "bit (be_word bs :: 'a::len word) n \<longleftrightarrow>
     n < LENGTH('a) \<and> n div 8 < length bs \<and> bit (bs ! (length bs - 1 - n div 8)) (n mod 8)"
  by (auto simp: be_word_def bit_le_word rev_nth Suc_diff_Suc)

lemma bit_swap16:
  "bit (swap16 x) n \<longleftrightarrow> n < 16 \<and> bit x (if n < 8 then n + 8 else n - 8)"
  by (auto simp: swap16_def bit_simps add.commute dest: bit_imp_le_length)

lemma bit_swap32:
  "bit (swap32 x) n \<longleftrightarrow> n < 32 \<and>
     bit x (if n < 8 then n + 24 else if n < 16 then n + 8 else if n < 24 then n - 8 else n - 24)"
  by (auto simp: swap32_def bit_simps bit_swap16 add.commute dest: bit_imp_le_length)

lemma bit_swap64:
  "bit (swap64 x) n \<longleftrightarrow> n < 64 \<and>
     bit x (if n < 8 then n + 56 else if n < 16 then n + 40 else if n < 24 then n + 24
            else if n < 32 then n + 8 else if n < 40 then n - 8 else if n < 48 then n - 24
            else if n < 56 then n - 40 else n - 56)"
  by (auto simp: swap64_def bit_simps bit_swap32 add.commute dest: bit_imp_le_length)

text \<open>Bit \<open>m\<close> of byte \<open>k\<close> is bit \<open>m + 8 * k\<close> of the word.\<close>

lemma byte_div: "m < 8 \<Longrightarrow> (m + 8 * k) div 8 = k \<and> (m + 8 * k) mod 8 = (m::nat)"
  by simp

lemma byte_idx_1:
  "m < 8 \<Longrightarrow> (m + 8) div 8 = 1 \<and> (m + 8) mod 8 = (m::nat)
     \<and> (8 + m) div 8 = 1 \<and> (8 + m) mod 8 = m"
  using byte_div [of m 1] by (simp add: add.commute)

lemma byte_idx_2:
  "m < 8 \<Longrightarrow> (m + 16) div 8 = 2 \<and> (m + 16) mod 8 = (m::nat)
     \<and> (16 + m) div 8 = 2 \<and> (16 + m) mod 8 = m"
  using byte_div [of m 2] by (simp add: add.commute)

lemma byte_idx_3:
  "m < 8 \<Longrightarrow> (m + 24) div 8 = 3 \<and> (m + 24) mod 8 = (m::nat)
     \<and> (24 + m) div 8 = 3 \<and> (24 + m) mod 8 = m"
  using byte_div [of m 3] by (simp add: add.commute)

lemma byte_idx_4:
  "m < 8 \<Longrightarrow> (m + 32) div 8 = 4 \<and> (m + 32) mod 8 = (m::nat)
     \<and> (32 + m) div 8 = 4 \<and> (32 + m) mod 8 = m"
  using byte_div [of m 4] by (simp add: add.commute)

lemma byte_idx_5:
  "m < 8 \<Longrightarrow> (m + 40) div 8 = 5 \<and> (m + 40) mod 8 = (m::nat)
     \<and> (40 + m) div 8 = 5 \<and> (40 + m) mod 8 = m"
  using byte_div [of m 5] by (simp add: add.commute)

lemma byte_idx_6:
  "m < 8 \<Longrightarrow> (m + 48) div 8 = 6 \<and> (m + 48) mod 8 = (m::nat)
     \<and> (48 + m) div 8 = 6 \<and> (48 + m) mod 8 = m"
  using byte_div [of m 6] by (simp add: add.commute)

lemma byte_idx_7:
  "m < 8 \<Longrightarrow> (m + 56) div 8 = 7 \<and> (m + 56) mod 8 = (m::nat)
     \<and> (56 + m) div 8 = 7 \<and> (56 + m) mod 8 = m"
  using byte_div [of m 7] by (simp add: add.commute)

lemmas byte_idx = byte_idx_1 byte_idx_2 byte_idx_3 byte_idx_4 byte_idx_5 byte_idx_6 byte_idx_7

lemma swap32_bit_0:
  "length bs = 4 \<Longrightarrow> m < 8 \<Longrightarrow>
     bit (swap32 (le_word bs)) (m) = bit (be_word bs :: u32) (m)"
  by (simp add: bit_swap32 bit_le_word bit_be_word byte_idx)

lemma swap32_bit_1:
  "length bs = 4 \<Longrightarrow> m < 8 \<Longrightarrow>
     bit (swap32 (le_word bs)) (m + 8) = bit (be_word bs :: u32) (m + 8)"
  by (simp add: bit_swap32 bit_le_word bit_be_word byte_idx)

lemma swap32_bit_2:
  "length bs = 4 \<Longrightarrow> m < 8 \<Longrightarrow>
     bit (swap32 (le_word bs)) (m + 16) = bit (be_word bs :: u32) (m + 16)"
  by (simp add: bit_swap32 bit_le_word bit_be_word byte_idx)

lemma swap32_bit_3:
  "length bs = 4 \<Longrightarrow> m < 8 \<Longrightarrow>
     bit (swap32 (le_word bs)) (m + 24) = bit (be_word bs :: u32) (m + 24)"
  by (simp add: bit_swap32 bit_le_word bit_be_word byte_idx)

lemma swap64_bit_0:
  "length bs = 8 \<Longrightarrow> m < 8 \<Longrightarrow>
     bit (swap64 (le_word bs)) (m) = bit (be_word bs :: u64) (m)"
  by (simp add: bit_swap64 bit_le_word bit_be_word byte_idx)

lemma swap64_bit_1:
  "length bs = 8 \<Longrightarrow> m < 8 \<Longrightarrow>
     bit (swap64 (le_word bs)) (m + 8) = bit (be_word bs :: u64) (m + 8)"
  by (simp add: bit_swap64 bit_le_word bit_be_word byte_idx)

lemma swap64_bit_2:
  "length bs = 8 \<Longrightarrow> m < 8 \<Longrightarrow>
     bit (swap64 (le_word bs)) (m + 16) = bit (be_word bs :: u64) (m + 16)"
  by (simp add: bit_swap64 bit_le_word bit_be_word byte_idx)

lemma swap64_bit_3:
  "length bs = 8 \<Longrightarrow> m < 8 \<Longrightarrow>
     bit (swap64 (le_word bs)) (m + 24) = bit (be_word bs :: u64) (m + 24)"
  by (simp add: bit_swap64 bit_le_word bit_be_word byte_idx)

lemma swap64_bit_4:
  "length bs = 8 \<Longrightarrow> m < 8 \<Longrightarrow>
     bit (swap64 (le_word bs)) (m + 32) = bit (be_word bs :: u64) (m + 32)"
  by (simp add: bit_swap64 bit_le_word bit_be_word byte_idx)

lemma swap64_bit_5:
  "length bs = 8 \<Longrightarrow> m < 8 \<Longrightarrow>
     bit (swap64 (le_word bs)) (m + 40) = bit (be_word bs :: u64) (m + 40)"
  by (simp add: bit_swap64 bit_le_word bit_be_word byte_idx)

lemma swap64_bit_6:
  "length bs = 8 \<Longrightarrow> m < 8 \<Longrightarrow>
     bit (swap64 (le_word bs)) (m + 48) = bit (be_word bs :: u64) (m + 48)"
  by (simp add: bit_swap64 bit_le_word bit_be_word byte_idx)

lemma swap64_bit_7:
  "length bs = 8 \<Longrightarrow> m < 8 \<Longrightarrow>
     bit (swap64 (le_word bs)) (m + 56) = bit (be_word bs :: u64) (m + 56)"
  by (simp add: bit_swap64 bit_le_word bit_be_word byte_idx)

text \<open>Swapping what the host reads gives the big-endian value of the bytes.\<close>

lemma swap32_le_word:
  assumes "length bs = 4"
  shows "swap32 (le_word bs) = be_word bs"
proof (rule bit_word_eqI)
  fix n assume "n < LENGTH(32)"
  then have n: "n < 32" by simp
  define m where "m = n mod 8"
  have m: "m < 8" by (simp add: m_def)
  have nm: "n = m + 8 * (n div 8)" by (simp add: m_def)
  have "n div 8 < 4" using n by (simp add: less_mult_imp_div_less)
  then consider "n div 8 = 0" | "n div 8 = 1" | "n div 8 = 2" | "n div 8 = 3" by linarith
  then consider "n = m" | "n = m + 8" | "n = m + 16" | "n = m + 24"
    using nm by cases simp_all
  then show "bit (swap32 (le_word bs)) n = bit (be_word bs :: u32) n"
    using swap32_bit_0 [OF assms m] swap32_bit_1 [OF assms m]
      swap32_bit_2 [OF assms m] swap32_bit_3 [OF assms m]
    by cases simp_all
qed

lemma swap64_le_word:
  assumes "length bs = 8"
  shows "swap64 (le_word bs) = be_word bs"
proof (rule bit_word_eqI)
  fix n assume "n < LENGTH(64)"
  then have n: "n < 64" by simp
  define m where "m = n mod 8"
  have m: "m < 8" by (simp add: m_def)
  have nm: "n = m + 8 * (n div 8)" by (simp add: m_def)
  have "n div 8 < 8" using n by (simp add: less_mult_imp_div_less)
  then consider "n div 8 = 0" | "n div 8 = 1" | "n div 8 = 2" | "n div 8 = 3"
    | "n div 8 = 4" | "n div 8 = 5" | "n div 8 = 6" | "n div 8 = 7" by linarith
  then consider "n = m" | "n = m + 8" | "n = m + 16" | "n = m + 24"
    | "n = m + 32" | "n = m + 40" | "n = m + 48" | "n = m + 56"
    using nm by cases simp_all
  then show "bit (swap64 (le_word bs)) n = bit (be_word bs :: u64) n"
    using swap64_bit_0 [OF assms m] swap64_bit_1 [OF assms m]
      swap64_bit_2 [OF assms m] swap64_bit_3 [OF assms m]
      swap64_bit_4 [OF assms m] swap64_bit_5 [OF assms m]
      swap64_bit_6 [OF assms m] swap64_bit_7 [OF assms m]
    by cases simp_all
qed

text \<open>Swapping twice gives the word back.\<close>

lemma swap32_swap32: "swap32 (swap32 x) = x"
proof (rule bit_word_eqI)
  fix n assume "n < LENGTH(32)"
  then have n: "n < 32" by simp
  then consider "n < 8" | "8 \<le> n" "n < 16" | "16 \<le> n" "n < 24" | "24 \<le> n" "n < 32"
    by linarith
  then show "bit (swap32 (swap32 x)) n = bit x n"
    by cases (auto simp: bit_swap32)
qed

lemma swap64_swap64: "swap64 (swap64 x) = x"
proof (rule bit_word_eqI)
  fix n assume "n < LENGTH(64)"
  then have n: "n < 64" by simp
  then consider "n < 8" | "8 \<le> n" "n < 16" | "16 \<le> n" "n < 24" | "24 \<le> n" "n < 32"
    | "32 \<le> n" "n < 40" | "40 \<le> n" "n < 48" | "48 \<le> n" "n < 56" | "56 \<le> n" "n < 64"
    by linarith
  then show "bit (swap64 (swap64 x)) n = bit x n"
    by cases (auto simp: bit_swap64)
qed

section \<open>Layout of the structs\<close>

lemmas layout_defs = WIAHeader1_members_def WIAHeader2_members_def PartitionDataEntry_members_def
  PartitionEntry_members_def RawDataEntry_members_def GroupEntry_members_def
  HashExceptionEntry_members_def PurgeSegment_members_def SHA1_t_def WiiKey_t_def

lemmas swap_defs = swap16_def swap32_def swap64_def

lemma sizeof_WIAHeader1: "sizeof_members WIAHeader1_members = 0x48"
  by (simp add: layout_defs)

lemma sizeof_WIAHeader2: "sizeof_members WIAHeader2_members = 0xDC"
  by (simp add: layout_defs)

lemma member_bytes_take:
  "offsetof ms name + member_size ms name \<le> n \<Longrightarrow>
     member_bytes ms name (take n bs) = member_bytes ms name bs"
  by (simp add: member_bytes_def drop_take min_def)

lemma length_member_bytes:
  "offsetof ms name + member_size ms name \<le> length bs \<Longrightarrow>
     length (member_bytes ms name bs) = member_size ms name"
  by (simp add: member_bytes_def)

lemma swap32_member:
  "member_size ms name = 4 \<Longrightarrow> offsetof ms name + 4 \<le> length bs \<Longrightarrow>
     swap32 (le_word (member_bytes ms name bs)) = be_word (member_bytes ms name bs)"
  by (rule swap32_le_word) (simp add: length_member_bytes)

lemma swap64_member:
  "member_size ms name = 8 \<Longrightarrow> offsetof ms name + 8 \<le> length bs \<Longrightarrow>
     swap64 (le_word (member_bytes ms name bs)) = be_word (member_bytes ms name bs)"
  by (rule swap64_le_word) (simp add: length_member_bytes)

text \<open>Where the members that the accessors and the checks read lie.\<close>

lemma WIAHeader1_offsets:
  "offsetof WIAHeader1_members ''magic'' = 0 \<and> member_size WIAHeader1_members ''magic'' = 4"
  "offsetof WIAHeader1_members ''version_compatible'' = 8
     \<and> member_size WIAHeader1_members ''version_compatible'' = 4"
  "offsetof WIAHeader1_members ''iso_file_size'' = 0x24
     \<and> member_size WIAHeader1_members ''iso_file_size'' = 8"
  "offsetof WIAHeader1_members ''wia_file_size'' = 0x2C
     \<and> member_size WIAHeader1_members ''wia_file_size'' = 8"
  by (simp_all add: layout_defs)

lemma WIAHeader2_offsets:
  "offsetof WIAHeader2_members ''compression_type'' = 4
     \<and> member_size WIAHeader2_members ''compression_type'' = 4"
  "offsetof WIAHeader2_members ''chunk_size'' = 0xC
     \<and> member_size WIAHeader2_members ''chunk_size'' = 4"
  by (simp_all add: layout_defs)

section \<open>What a successful open has checked\<close>

lemma read_header_1_Inr:
  assumes "read_header_1 f = Inr h"
  shows "0x48 \<le> length f" and "h = load_WIAHeader1 (take 0x48 f)" and "magic h = WIA_MAGIC"
  using assms
  by (auto simp: read_header_1_def read_bytes_def sizeof_WIAHeader1 split: if_splits)

lemma read_header_2_Inr:
  assumes "read_header_2 f h1 = Inr h2"
  shows "0x48 + 0xDC \<le> length f" and "h2 = load_WIAHeader2 (take 0xDC (drop 0x48 f))"
    and "WIA_VERSION_READ_COMPATIBLE \<le> swap32 (version_compatible h1)"
  using assms
  by (auto simp: read_header_2_def read_bytes_def sizeof_WIAHeader1 sizeof_WIAHeader2
      split: if_splits sum.splits)

lemma WIA_open_Inr:
  assumes "WIA_open f = Inr r"
  shows "read_header_1 f = Inr (m_header_1 r)"
    and "read_header_2 f (m_header_1 r) = Inr (m_header_2 r)"
    and "check_types (m_header_2 r) = Inr (m_compression_type r)"
  using assms by (auto simp: WIA_open_def split: sum.splits)

text \<open>The members of the stored headers, in terms of the bytes of the file.\<close>

lemma stored_iso_file_size:
  assumes "WIA_open f = Inr r"
  shows "swap64 (iso_file_size (m_header_1 r))
           = be_word (member_bytes WIAHeader1_members ''iso_file_size'' f)"
proof -
  have len: "0x48 \<le> length f" and h: "m_header_1 r = load_WIAHeader1 (take 0x48 f)"
    using read_header_1_Inr [OF WIA_open_Inr(1) [OF assms]] by simp_all
  have "iso_file_size (m_header_1 r)
          = le_word (member_bytes WIAHeader1_members ''iso_file_size'' f)"
    by (simp add: h load_WIAHeader1_def member_bytes_take WIAHeader1_offsets)
  then show ?thesis
    using len by (simp add: swap64_member WIAHeader1_offsets)
qed

lemma stored_wia_file_size:
  assumes "WIA_open f = Inr r"
  shows "swap64 (wia_file_size (m_header_1 r))
           = be_word (member_bytes WIAHeader1_members ''wia_file_size'' f)"
proof -
  have len: "0x48 \<le> length f" and h: "m_header_1 r = load_WIAHeader1 (take 0x48 f)"
    using read_header_1_Inr [OF WIA_open_Inr(1) [OF assms]] by simp_all
  have "wia_file_size (m_header_1 r)
          = le_word (member_bytes WIAHeader1_members ''wia_file_size'' f)"
    by (simp add: h load_WIAHeader1_def member_bytes_take WIAHeader1_offsets)
  then show ?thesis
    using len by (simp add: swap64_member WIAHeader1_offsets)
qed

lemma stored_version_compatible:
  assumes "read_header_1 f = Inr h1"
  shows "swap32 (version_compatible h1)
           = be_word (member_bytes WIAHeader1_members ''version_compatible'' f)"
proof -
  have len: "0x48 \<le> length f" and h: "h1 = load_WIAHeader1 (take 0x48 f)"
    using read_header_1_Inr [OF assms] by simp_all
  have "version_compatible h1
          = le_word (member_bytes WIAHeader1_members ''version_compatible'' f)"
    by (simp add: h load_WIAHeader1_def member_bytes_take WIAHeader1_offsets)
  then show ?thesis
    using len by (simp add: swap32_member WIAHeader1_offsets)
qed

lemma stored_chunk_size:
  assumes "WIA_open f = Inr r"
  shows "swap32 (chunk_size (m_header_2 r))
           = be_word (member_bytes WIAHeader2_members ''chunk_size'' (drop 0x48 f))"
proof -
  have len: "0x48 + 0xDC \<le> length f"
    and h: "m_header_2 r = load_WIAHeader2 (take 0xDC (drop 0x48 f))"
    using read_header_2_Inr [OF WIA_open_Inr(2) [OF assms]] by simp_all
  have "chunk_size (m_header_2 r)
          = le_word (member_bytes WIAHeader2_members ''chunk_size'' (drop 0x48 f))"
    by (simp add: h load_WIAHeader2_def member_bytes_take WIAHeader2_offsets)
  then show ?thesis
    using len by (simp add: swap32_member WIAHeader2_offsets)
qed

lemma stored_compression_type:
  assumes "read_header_2 f h1 = Inr h2"
  shows "swap32 (compression_type h2)
           = be_word (member_bytes WIAHeader2_members ''compression_type'' (drop 0x48 f))"
proof -
  have len: "0x48 + 0xDC \<le> length f"
    and h: "h2 = load_WIAHeader2 (take 0xDC (drop 0x48 f))"
    using read_header_2_Inr [OF assms] by simp_all
  have "compression_type h2
          = le_word (member_bytes WIAHeader2_members ''compression_type'' (drop 0x48 f))"
    by (simp add: h load_WIAHeader2_def member_bytes_take WIAHeader2_offsets)
  then show ?thesis
    using len by (simp add: swap32_member WIAHeader2_offsets)
qed

section \<open>The tables after a successful open\<close>

lemma sizeof_entries:
  "sizeof_members PartitionDataEntry_members = 0x10"
  "sizeof_members PartitionEntry_members = 0x30"
  "sizeof_members RawDataEntry_members = 0x18"
  "sizeof_members GroupEntry_members = 0x08"
  by (simp_all add: layout_defs)

lemma PartitionDataEntry_offsets:
  "offsetof PartitionDataEntry_members ''first_sector'' = 0
     \<and> member_size PartitionDataEntry_members ''first_sector'' = 4"
  "offsetof PartitionDataEntry_members ''number_of_sectors'' = 4
     \<and> member_size PartitionDataEntry_members ''number_of_sectors'' = 4"
  "offsetof PartitionDataEntry_members ''group_index'' = 8
     \<and> member_size PartitionDataEntry_members ''group_index'' = 4"
  "offsetof PartitionDataEntry_members ''number_of_groups'' = 0xC
     \<and> member_size PartitionDataEntry_members ''number_of_groups'' = 4"
  by (simp_all add: layout_defs)

lemma PartitionEntry_offsets:
  "offsetof PartitionEntry_members ''data_entries'' = 0x10
     \<and> member_size PartitionEntry_members ''data_entries'' = 0x20"
  by (simp add: layout_defs)

lemma RawDataEntry_offsets:
  "offsetof RawDataEntry_members ''data_offset'' = 0
     \<and> member_size RawDataEntry_members ''data_offset'' = 8"
  "offsetof RawDataEntry_members ''data_size'' = 8
     \<and> member_size RawDataEntry_members ''data_size'' = 8"
  "offsetof RawDataEntry_members ''group_index'' = 0x10
     \<and> member_size RawDataEntry_members ''group_index'' = 4"
  "offsetof RawDataEntry_members ''number_of_groups'' = 0x14
     \<and> member_size RawDataEntry_members ''number_of_groups'' = 4"
  by (simp_all add: layout_defs)

lemma GroupEntry_offsets:
  "offsetof GroupEntry_members ''data_offset'' = 0
     \<and> member_size GroupEntry_members ''data_offset'' = 4"
  "offsetof GroupEntry_members ''data_size'' = 4
     \<and> member_size GroupEntry_members ''data_size'' = 4"
  by (simp_all add: layout_defs)

text \<open>An entry read as it is and then byte-swapped holds the host-order values.\<close>

lemma swap_load_PartitionDataEntry:
  "0x10 \<le> length bs \<Longrightarrow>
     swap_PartitionDataEntry (load_PartitionDataEntry bs) = host_PartitionDataEntry bs"
  by (simp add: swap_PartitionDataEntry_def load_PartitionDataEntry_def
      host_PartitionDataEntry_def swap32_member PartitionDataEntry_offsets)

lemma swap_load_RawDataEntry:
  "0x18 \<le> length bs \<Longrightarrow> swap_RawDataEntry (load_RawDataEntry bs) = host_RawDataEntry bs"
  by (simp add: swap_RawDataEntry_def load_RawDataEntry_def host_RawDataEntry_def
      swap32_member swap64_member RawDataEntry_offsets)

lemma swap_load_GroupEntry:
  "0x08 \<le> length bs \<Longrightarrow> swap_GroupEntry (load_GroupEntry bs) = host_GroupEntry bs"
  by (simp add: swap_GroupEntry_def load_GroupEntry_def host_GroupEntry_def
      swap32_member GroupEntry_offsets)

lemma length_chunks_elem:
  "n * k \<le> length b \<Longrightarrow> c \<in> set (chunks n k b) \<Longrightarrow> length c = k"
proof (induction n arbitrary: b)
  case 0
  then show ?case by simp
next
  case (Suc n)
  from Suc.prems(1) have k: "k \<le> length b" and rest: "n * k \<le> length (drop k b)"
    by simp_all
  from Suc.prems(2) consider "c = take k b" | "c \<in> set (chunks n k (drop k b))"
    by auto
  then show ?case
  proof cases
    case 1
    with k show ?thesis by simp
  next
    case 2
    with Suc.IH [OF rest] show ?thesis by simp
  qed
qed

lemma swap_load_PartitionEntry:
  assumes "0x30 \<le> length bs"
  shows "swap_PartitionEntry (load_PartitionEntry bs) = host_PartitionEntry bs"
proof -
  let ?d = "member_bytes PartitionEntry_members ''data_entries'' bs"
  have "length ?d = 0x20"
    using assms by (simp add: length_member_bytes PartitionEntry_offsets)
  then have "\<And>c. c \<in> set (chunks 2 0x10 ?d) \<Longrightarrow> 0x10 \<le> length c"
    using length_chunks_elem [of 2 "0x10" ?d] by simp
  then have "map (\<lambda>c. swap_PartitionDataEntry (load_PartitionDataEntry c)) (chunks 2 0x10 ?d)
               = map host_PartitionDataEntry (chunks 2 0x10 ?d)"
    by (intro map_cong refl) (simp add: swap_load_PartitionDataEntry)
  then show ?thesis
    by (simp add: swap_PartitionEntry_def load_PartitionEntry_def host_PartitionEntry_def
        sizeof_entries o_def)
qed

lemma read_bytes_Inr:
  assumes "read_bytes f off n = Inr b"
  shows "b = take n (drop off f)" and "length b = n"
  using assms by (auto simp: read_bytes_def split: if_splits)

lemma map_chunks_cong:
  assumes "length b = n * k" and "\<And>c. length c = k \<Longrightarrow> g c = h c"
  shows "map g (chunks n k b) = map h (chunks n k b)"
proof (intro map_cong refl)
  fix c assume "c \<in> set (chunks n k b)"
  then have "length c = k" using length_chunks_elem [of n k b c] assms(1) by simp
  then show "g c = h c" by (rule assms(2))
qed

lemma read_partition_entries_Inr:
  assumes "read_partition_entries f h2 = Inr ps"
  shows "ps = map host_PartitionEntry
                (chunks (unat (swap32 (number_of_partition_entries h2)))
                   (unat (swap32 (partition_entry_size h2)))
                   (take (unat (swap32 (number_of_partition_entries h2))
                            * unat (swap32 (partition_entry_size h2)))
                      (drop (unat (swap64 (partition_entries_offset h2))) f)))"
proof -
  let ?n = "unat (swap32 (number_of_partition_entries h2))"
  let ?k = "unat (swap32 (partition_entry_size h2))"
  obtain b where b: "read_bytes f (unat (swap64 (partition_entries_offset h2))) (?n * ?k) = Inr b"
    and big: "\<not> (0 < ?n \<and> ?k < 0x30)"
    and ps: "ps = map (\<lambda>bs. swap_PartitionEntry (load_PartitionEntry bs)) (chunks ?n ?k b)"
    using assms
    by (simp add: read_partition_entries_def sizeof_entries split: sum.splits if_splits)
  note rb = read_bytes_Inr [OF b]
  have "map (\<lambda>bs. swap_PartitionEntry (load_PartitionEntry bs)) (chunks ?n ?k b)
          = map host_PartitionEntry (chunks ?n ?k b)"
  proof (cases "?n = 0")
    case True
    then show ?thesis by simp
  next
    case False
    with big have "0x30 \<le> ?k" by simp
    then show ?thesis
      by (intro map_chunks_cong [OF rb(2)]) (simp add: swap_load_PartitionEntry)
  qed
  with ps rb(1) show ?thesis by simp
qed

lemma read_raw_data_entries_Inr:
  assumes "read_raw_data_entries f h2 = Inr rs"
  shows "rs = map host_RawDataEntry
                (chunks (unat (swap32 (number_of_raw_data_entries h2))) 0x18
                   (take (unat (swap32 (number_of_raw_data_entries h2)) * 0x18)
                      (drop (unat (swap64 (raw_data_entries_offset h2))) f)))"
proof -
  let ?n = "unat (swap32 (number_of_raw_data_entries h2))"
  obtain b where b: "read_bytes f (unat (swap64 (raw_data_entries_offset h2))) (?n * 0x18) = Inr b"
    and rs: "rs = map (\<lambda>bs. swap_RawDataEntry (load_RawDataEntry bs)) (chunks ?n 0x18 b)"
    using assms
    by (simp add: read_raw_data_entries_def sizeof_entries split: sum.splits)
  note rb = read_bytes_Inr [OF b]
  have "map (\<lambda>bs. swap_RawDataEntry (load_RawDataEntry bs)) (chunks ?n 0x18 b)
          = map host_RawDataEntry (chunks ?n 0x18 b)"
    by (rule map_chunks_cong [OF rb(2)]) (simp add: swap_load_RawDataEntry)
  with rs rb(1) show ?thesis by simp
qed

lemma read_group_entries_Inr:
  assumes "read_group_entries f h2 = Inr gs"
  shows "gs = map host_GroupEntry
                (chunks (unat (swap32 (number_of_group_entries h2))) 0x08
                   (take (unat (swap32 (number_of_group_entries h2)) * 0x08)
                      (drop (unat (swap64 (group_entries_offset h2))) f)))"
proof -
  let ?n = "unat (swap32 (number_of_group_entries h2))"
  obtain b where b: "read_bytes f (unat (swap64 (group_entries_offset h2))) (?n * 0x08) = Inr b"
    and gs: "gs = map (\<lambda>bs. swap_GroupEntry (load_GroupEntry bs)) (chunks ?n 0x08 b)"
    using assms
    by (simp add: read_group_entries_def sizeof_entries split: sum.splits)
  note rb = read_bytes_Inr [OF b]
  have "map (\<lambda>bs. swap_GroupEntry (load_GroupEntry bs)) (chunks ?n 0x08 b)
          = map host_GroupEntry (chunks ?n 0x08 b)"
    by (rule map_chunks_cong [OF rb(2)]) (simp add: swap_load_GroupEntry)
  with gs rb(1) show ?thesis by simp
qed

lemma WIA_open_tables:
  assumes "WIA_open f = Inr r"
  shows "read_partition_entries f (m_header_2 r) = Inr (m_partition_entries r)"
    and "read_raw_data_entries f (m_header_2 r) = Inr (m_raw_data_entries r)"
    and "read_group_entries f (m_header_2 r) = Inr (m_group_entries r)"
  using assms by (auto simp: WIA_open_def split: sum.splits)

section \<open>Running the checks on the concrete files\<close>

lemma sha1_loop_numeral:
  "sha1_loop (numeral n) t st win =
     sha1_loop (pred_numeral n) (t + 1) (sha1_round t st (sha1_w t win)) (sha1_win t win)"
  by (simp add: numeral_eq_Suc)

lemma chunks_numeral:
  "chunks (numeral n) k xs = take k xs # chunks (pred_numeral n) k (drop k xs)"
  by (simp add: numeral_eq_Suc)

lemma replicate_numeral:
  "replicate (numeral k) x = x # replicate (pred_numeral k) x"
  by (simp add: numeral_eq_Suc)

lemmas sha1_eval = chunks_numeral sha1_loop_numeral be_word_def rotl32_def sha1_ch_def
  sha1_parity_def sha1_maj_def sha1_block_def sha1_f_def sha1_k_def sha1_w_def sha1_win_def

text \<open>
  The digests, one compression of a 64-byte block at a time. \<open>sha1_abc\<close> is the first
  test vector of the standard.
\<close>

lemma sha1_block_empty_1:
  "sha1_block (0x67452301, 0xEFCDAB89, 0x98BADCFE, 0x10325476, 0xC3D2E1F0)
    [0x80, 0x00, 0x00, 0x00, 0x00, 0x00, 0x00, 0x00, 0x00, 0x00, 0x00, 0x00, 0x00, 0x00, 0x00, 0x00,
     0x00, 0x00, 0x00, 0x00, 0x00, 0x00, 0x00, 0x00, 0x00, 0x00, 0x00, 0x00, 0x00, 0x00, 0x00, 0x00,
     0x00, 0x00, 0x00, 0x00, 0x00, 0x00, 0x00, 0x00, 0x00, 0x00, 0x00, 0x00, 0x00, 0x00, 0x00, 0x00,
     0x00, 0x00, 0x00, 0x00, 0x00, 0x00, 0x00, 0x00, 0x00, 0x00, 0x00, 0x00, 0x00, 0x00, 0x00, 0x00]
   = (0xDA39A3EE, 0x5E6B4B0D, 0x3255BFEF, 0x95601890, 0xAFD80709)"
  by (simp add: sha1_eval)

lemma sha1_empty:
  "sha1 []
   = [0xDA, 0x39, 0xA3, 0xEE, 0x5E, 0x6B, 0x4B, 0x0D, 0x32, 0x55, 0xBF, 0xEF, 0x95, 0x60, 0x18, 0x90,
     0xAF, 0xD8, 0x07, 0x09]"
  by (simp add: sha1_def sha1_pad_def sha1_init_def be_bytes64_def be_bytes32_def
      replicate_numeral chunks_numeral sha1_block_empty_1)

lemma sha1_block_abc_1:
  "sha1_block (0x67452301, 0xEFCDAB89, 0x98BADCFE, 0x10325476, 0xC3D2E1F0)
    [0x61, 0x62, 0x63, 0x80, 0x00, 0x00, 0x00, 0x00, 0x00, 0x00, 0x00, 0x00, 0x00, 0x00, 0x00, 0x00,
     0x00, 0x00, 0x00, 0x00, 0x00, 0x00, 0x00, 0x00, 0x00, 0x00, 0x00, 0x00, 0x00, 0x00, 0x00, 0x00,
     0x00, 0x00, 0x00, 0x00, 0x00, 0x00, 0x00, 0x00, 0x00, 0x00, 0x00, 0x00, 0x00, 0x00, 0x00, 0x00,
     0x00, 0x00, 0x00, 0x00, 0x00, 0x00, 0x00, 0x00, 0x00, 0x00, 0x00, 0x00, 0x00, 0x00, 0x00, 0x18]
   = (0xA9993E36, 0x4706816A, 0xBA3E2571, 0x7850C26C, 0x9CD0D89D)"
  by (simp add: sha1_eval)

lemma sha1_abc:
  "sha1 [0x61, 0x62, 0x63]
   = [0xA9, 0x99, 0x3E, 0x36, 0x47, 0x06, 0x81, 0x6A, 0xBA, 0x3E, 0x25, 0x71, 0x78, 0x50, 0xC2, 0x6C,
     0x9C, 0xD0, 0xD8, 0x9D]"
  by (simp add: sha1_def sha1_pad_def sha1_init_def be_bytes64_def be_bytes32_def
      replicate_numeral chunks_numeral sha1_block_abc_1)

lemma sha1_block_file0_header_1_1:
  "sha1_block (0x67452301, 0xEFCDAB89, 0x98BADCFE, 0x10325476, 0xC3D2E1F0)
    [0x57, 0x49, 0x41, 0x01, 0x01, 0x00, 0x00, 0x00, 0x00, 0x08, 0x00, 0x00, 0x00, 0x00, 0x00, 0xDC,
     0x59, 0x9E, 0xE3, 0xA0, 0x90, 0x9C, 0xF3, 0x74, 0xE4, 0x17, 0x6D, 0x9F, 0x86, 0xEA, 0xA6, 0x19,
     0xE3, 0xA9, 0xAD, 0x59, 0x00, 0x00, 0x00, 0x00, 0x00, 0x20, 0x00, 0x00, 0x00, 0x00, 0x00, 0x00,
     0x00, 0x00, 0x01, 0x44, 0x00, 0x00, 0x00, 0x00, 0x00, 0x00, 0x00, 0x00, 0x00, 0x00, 0x00, 0x00]
   = (0xA492F006, 0x26B58DB1, 0xEAFF2D86, 0x89A765E2, 0x9ED96305)"
  by (simp add: sha1_eval)

lemma sha1_block_file0_header_1_2:
  "sha1_block (0xA492F006, 0x26B58DB1, 0xEAFF2D86, 0x89A765E2, 0x9ED96305)
    [0x00, 0x00, 0x00, 0x00, 0x00, 0x00, 0x00, 0x00, 0x80, 0x00, 0x00, 0x00, 0x00, 0x00, 0x00, 0x00,
     0x00, 0x00, 0x00, 0x00, 0x00, 0x00, 0x00, 0x00, 0x00, 0x00, 0x00, 0x00, 0x00, 0x00, 0x00, 0x00,
     0x00, 0x00, 0x00, 0x00, 0x00, 0x00, 0x00, 0x00, 0x00, 0x00, 0x00, 0x00, 0x00, 0x00, 0x00, 0x00,
     0x00, 0x00, 0x00, 0x00, 0x00, 0x00, 0x00, 0x00, 0x00, 0x00, 0x00, 0x00, 0x00, 0x00, 0x02, 0x40]
   = (0x497983E8, 0x9806166C, 0x21BF0667, 0x96DD6301, 0xC9136E40)"
  by (simp add: sha1_eval)

lemma sha1_file0_header_1:
  "sha1 [0x57, 0x49, 0x41, 0x01, 0x01, 0x00, 0x00, 0x00, 0x00, 0x08, 0x00, 0x00, 0x00, 0x00, 0x00, 0xDC,
     0x59, 0x9E, 0xE3, 0xA0, 0x90, 0x9C, 0xF3, 0x74, 0xE4, 0x17, 0x6D, 0x9F, 0x86, 0xEA, 0xA6, 0x19,
     0xE3, 0xA9, 0xAD, 0x59, 0x00, 0x00, 0x00, 0x00, 0x00, 0x20, 0x00, 0x00, 0x00, 0x00, 0x00, 0x00,
     0x00, 0x00, 0x01, 0x44, 0x00, 0x00, 0x00, 0x00, 0x00, 0x00, 0x00, 0x00, 0x00, 0x00, 0x00, 0x00,
     0x00, 0x00, 0x00, 0x00, 0x00, 0x00, 0x00, 0x00]
   = [0x49, 0x79, 0x83, 0xE8, 0x98, 0x06, 0x16, 0x6C, 0x21, 0xBF, 0x06, 0x67, 0x96, 0xDD, 0x63, 0x01,
     0xC9, 0x13, 0x6E, 0x40]"
  by (simp add: sha1_def sha1_pad_def sha1_init_def be_bytes64_def be_bytes32_def
      replicate_numeral chunks_numeral sha1_block_file0_header_1_1 sha1_block_file0_header_1_2)

lemma sha1_block_file0_header_2_1:
  "sha1_block (0x67452301, 0xEFCDAB89, 0x98BADCFE, 0x10325476, 0xC3D2E1F0)
    [0x00, 0x00, 0x00, 0x01, 0x00, 0x00, 0x00, 0x01, 0x00, 0x00, 0x00, 0x00, 0x00, 0x20, 0x00, 0x00,
     0x00, 0x00, 0x00, 0x00, 0x00, 0x00, 0x00, 0x00, 0x00, 0x00, 0x00, 0x00, 0x00, 0x00, 0x00, 0x00,
     0x00, 0x00, 0x00, 0x00, 0x00, 0x00, 0x00, 0x00, 0x00, 0x00, 0x00, 0x00, 0xC2, 0x33, 0x9F, 0x3D,
     0x00, 0x00, 0x00, 0x00, 0x00, 0x00, 0x00, 0x00, 0x00, 0x00, 0x00, 0x00, 0x00, 0x00, 0x00, 0x00]
   = (0x44DF435F, 0x267F4D82, 0x1DE89B2E, 0x7F1442E2, 0x11AAE9BA)"
  by (simp add: sha1_eval)

lemma sha1_block_file0_header_2_2:
  "sha1_block (0x44DF435F, 0x267F4D82, 0x1DE89B2E, 0x7F1442E2, 0x11AAE9BA)
    [0x00, 0x00, 0x00, 0x00, 0x00, 0x00, 0x00, 0x00, 0x00, 0x00, 0x00, 0x00, 0x00, 0x00, 0x00, 0x00,
     0x00, 0x00, 0x00, 0x00, 0x00, 0x00, 0x00, 0x00, 0x00, 0x00, 0x00, 0x00, 0x00, 0x00, 0x00, 0x00,
     0x00, 0x00, 0x00, 0x00, 0x00, 0x00, 0x00, 0x00, 0x00, 0x00, 0x00, 0x00, 0x00, 0x00, 0x00, 0x00,
     0x00, 0x00, 0x00, 0x00, 0x00, 0x00, 0x00, 0x00, 0x00, 0x00, 0x00, 0x00, 0x00, 0x00, 0x00, 0x00]
   = (0xD3BA3437, 0xA4272406, 0x1BDB1836, 0xE21D760E, 0x0274BA54)"
  by (simp add: sha1_eval)

lemma sha1_block_file0_header_2_3:
  "sha1_block (0xD3BA3437, 0xA4272406, 0x1BDB1836, 0xE21D760E, 0x0274BA54)
    [0x00, 0x00, 0x00, 0x00, 0x00, 0x00, 0x00, 0x00, 0x00, 0x00, 0x00, 0x00, 0x00, 0x00, 0x00, 0x00,
     0x00, 0x00, 0x00, 0x00, 0x00, 0x00, 0x00, 0x30, 0x00, 0x00, 0x00, 0x00, 0x00, 0x00, 0x01, 0x24,
     0xDA, 0x39, 0xA3, 0xEE, 0x5E, 0x6B, 0x4B, 0x0D, 0x32, 0x55, 0xBF, 0xEF, 0x95, 0x60, 0x18, 0x90,
     0xAF, 0xD8, 0x07, 0x09, 0x00, 0x00, 0x00, 0x01, 0x00, 0x00, 0x00, 0x00, 0x00, 0x00, 0x01, 0x24]
   = (0x9D7D7FF6, 0x3867A133, 0x850BB92F, 0x2DE22966, 0x195912F8)"
  by (simp add: sha1_eval)

lemma sha1_block_file0_header_2_4:
  "sha1_block (0x9D7D7FF6, 0x3867A133, 0x850BB92F, 0x2DE22966, 0x195912F8)
    [0x00, 0x00, 0x00, 0x18, 0x00, 0x00, 0x00, 0x01, 0x00, 0x00, 0x00, 0x00, 0x00, 0x00, 0x01, 0x3C,
     0x00, 0x00, 0x00, 0x08, 0x00, 0x00, 0x00, 0x00, 0x00, 0x00, 0x00, 0x00, 0x80, 0x00, 0x00, 0x00,
     0x00, 0x00, 0x00, 0x00, 0x00, 0x00, 0x00, 0x00, 0x00, 0x00, 0x00, 0x00, 0x00, 0x00, 0x00, 0x00,
     0x00, 0x00, 0x00, 0x00, 0x00, 0x00, 0x00, 0x00, 0x00, 0x00, 0x00, 0x00, 0x00, 0x00, 0x06, 0xE0]
   = (0x599EE3A0, 0x909CF374, 0xE4176D9F, 0x86EAA619, 0xE3A9AD59)"
  by (simp add: sha1_eval)

lemma sha1_file0_header_2:
  "sha1 [0x00, 0x00, 0x00, 0x01, 0x00, 0x00, 0x00, 0x01, 0x00, 0x00, 0x00, 0x00, 0x00, 0x20, 0x00, 0x00,
     0x00, 0x00, 0x00, 0x00, 0x00, 0x00, 0x00, 0x00, 0x00, 0x00, 0x00, 0x00, 0x00, 0x00, 0x00, 0x00,
     0x00, 0x00, 0x00, 0x00, 0x00, 0x00, 0x00, 0x00, 0x00, 0x00, 0x00, 0x00, 0xC2, 0x33, 0x9F, 0x3D,
     0x00, 0x00, 0x00, 0x00, 0x00, 0x00, 0x00, 0x00, 0x00, 0x00, 0x00, 0x00, 0x00, 0x00, 0x00, 0x00,
     0x00, 0x00, 0x00, 0x00, 0x00, 0x00, 0x00, 0x00, 0x00, 0x00, 0x00, 0x00, 0x00, 0x00, 0x00, 0x00,
     0x00, 0x00, 0x00, 0x00, 0x00, 0x00, 0x00, 0x00, 0x00, 0x00, 0x00, 0x00, 0x00, 0x00, 0x00, 0x00,
     0x00, 0x00, 0x00, 0x00, 0x00, 0x00, 0x00, 0x00, 0x00, 0x00, 0x00, 0x00, 0x00, 0x00, 0x00, 0x00,
     0x00, 0x00, 0x00, 0x00, 0x00, 0x00, 0x00, 0x00, 0x00, 0x00, 0x00, 0x00, 0x00, 0x00, 0x00, 0x00,
     0x00, 0x00, 0x00, 0x00, 0x00, 0x00, 0x00, 0x00, 0x00, 0x00, 0x00, 0x00, 0x00, 0x00, 0x00, 0x00,
     0x00, 0x00, 0x00, 0x00, 0x00, 0x00, 0x00, 0x30, 0x00, 0x00, 0x00, 0x00, 0x00, 0x00, 0x01, 0x24,
     0xDA, 0x39, 0xA3, 0xEE, 0x5E, 0x6B, 0x4B, 0x0D, 0x32, 0x55, 0xBF, 0xEF, 0x95, 0x60, 0x18, 0x90,
     0xAF, 0xD8, 0x07, 0x09, 0x00, 0x00, 0x00, 0x01, 0x00, 0x00, 0x00, 0x00, 0x00, 0x00, 0x01, 0x24,
     0x00, 0x00, 0x00, 0x18, 0x00, 0x00, 0x00, 0x01, 0x00, 0x00, 0x00, 0x00, 0x00, 0x00, 0x01, 0x3C,
     0x00, 0x00, 0x00, 0x08, 0x00, 0x00, 0x00, 0x00, 0x00, 0x00, 0x00, 0x00]
   = [0x59, 0x9E, 0xE3, 0xA0, 0x90, 0x9C, 0xF3, 0x74, 0xE4, 0x17, 0x6D, 0x9F, 0x86, 0xEA, 0xA6, 0x19,
     0xE3, 0xA9, 0xAD, 0x59]"
  by (simp add: sha1_def sha1_pad_def sha1_init_def be_bytes64_def be_bytes32_def
      replicate_numeral chunks_numeral sha1_block_file0_header_2_1 sha1_block_file0_header_2_2 sha1_block_file0_header_2_3 sha1_block_file0_header_2_4)

lemma sha1_block_file1_header_1_1:
  "sha1_block (0x67452301, 0xEFCDAB89, 0x98BADCFE, 0x10325476, 0xC3D2E1F0)
    [0x57, 0x49, 0x41, 0x01, 0x01, 0x00, 0x00, 0x00, 0x00, 0x08, 0x00, 0x00, 0x00, 0x00, 0x00, 0xDC,
     0x2C, 0x78, 0x5A, 0x69, 0x64, 0xA3, 0xB0, 0x7C, 0xE5, 0x0E, 0x20, 0x89, 0x00, 0xE2, 0xE2, 0xA3,
     0x49, 0x5A, 0xE6, 0x5F, 0x00, 0x00, 0x00, 0x00, 0x00, 0x20, 0x00, 0x00, 0x00, 0x00, 0x00, 0x00,
     0x00, 0x00, 0x01, 0x44, 0x00, 0x00, 0x00, 0x00, 0x00, 0x00, 0x00, 0x00, 0x00, 0x00, 0x00, 0x00]
   = (0x1AA685EF, 0xA6E4A02A, 0x579317A4, 0xEF20792F, 0x5F7FA768)"
  by (simp add: sha1_eval)

lemma sha1_block_file1_header_1_2:
  "sha1_block (0x1AA685EF, 0xA6E4A02A, 0x579317A4, 0xEF20792F, 0x5F7FA768)
    [0x00, 0x00, 0x00, 0x00, 0x00, 0x00, 0x00, 0x00, 0x80, 0x00, 0x00, 0x00, 0x00, 0x00, 0x00, 0x00,
     0x00, 0x00, 0x00, 0x00, 0x00, 0x00, 0x00, 0x00, 0x00, 0x00, 0x00, 0x00, 0x00, 0x00, 0x00, 0x00,
     0x00, 0x00, 0x00, 0x00, 0x00, 0x00, 0x00, 0x00, 0x00, 0x00, 0x00, 0x00, 0x00, 0x00, 0x00, 0x00,
     0x00, 0x00, 0x00, 0x00, 0x00, 0x00, 0x00, 0x00, 0x00, 0x00, 0x00, 0x00, 0x00, 0x00, 0x02, 0x40]
   = (0xE25BC06C, 0x67F6AD9E, 0xEAA4EDDC, 0x5C7550E8, 0x2533450C)"
  by (simp add: sha1_eval)

lemma sha1_file1_header_1:
  "sha1 [0x57, 0x49, 0x41, 0x01, 0x01, 0x00, 0x00, 0x00, 0x00, 0x08, 0x00, 0x00, 0x00, 0x00, 0x00, 0xDC,
     0x2C, 0x78, 0x5A, 0x69, 0x64, 0xA3, 0xB0, 0x7C, 0xE5, 0x0E, 0x20, 0x89, 0x00, 0xE2, 0xE2, 0xA3,
     0x49, 0x5A, 0xE6, 0x5F, 0x00, 0x00, 0x00, 0x00, 0x00, 0x20, 0x00, 0x00, 0x00, 0x00, 0x00, 0x00,
     0x00, 0x00, 0x01, 0x44, 0x00, 0x00, 0x00, 0x00, 0x00, 0x00, 0x00, 0x00, 0x00, 0x00, 0x00, 0x00,
     0x00, 0x00, 0x00, 0x00, 0x00, 0x00, 0x00, 0x00]
   = [0xE2, 0x5B, 0xC0, 0x6C, 0x67, 0xF6, 0xAD, 0x9E, 0xEA, 0xA4, 0xED, 0xDC, 0x5C, 0x75, 0x50, 0xE8,
     0x25, 0x33, 0x45, 0x0C]"
  by (simp add: sha1_def sha1_pad_def sha1_init_def be_bytes64_def be_bytes32_def
      replicate_numeral chunks_numeral sha1_block_file1_header_1_1 sha1_block_file1_header_1_2)

lemma sha1_block_file1_header_2_1:
  "sha1_block (0x67452301, 0xEFCDAB89, 0x98BADCFE, 0x10325476, 0xC3D2E1F0)
    [0x00, 0x00, 0x00, 0x01, 0x00, 0x00, 0x00, 0x05, 0x00, 0x00, 0x00, 0x00, 0x00, 0x20, 0x00, 0x00,
     0x00, 0x00, 0x00, 0x00, 0x00, 0x00, 0x00, 0x00, 0x00, 0x00, 0x00, 0x00, 0x00, 0x00, 0x00, 0x00,
     0x00, 0x00, 0x00, 0x00, 0x00, 0x00, 0x00, 0x00, 0x00, 0x00, 0x00, 0x00, 0xC2, 0x33, 0x9F, 0x3D,
     0x00, 0x00, 0x00, 0x00, 0x00, 0x00, 0x00, 0x00, 0x00, 0x00, 0x00, 0x00, 0x00, 0x00, 0x00, 0x00]
   = (0xFC32BE39, 0x76BCA000, 0x54609E61, 0x70FE5C1B, 0xA0A97C76)"
  by (simp add: sha1_eval)

lemma sha1_block_file1_header_2_2:
  "sha1_block (0xFC32BE39, 0x76BCA000, 0x54609E61, 0x70FE5C1B, 0xA0A97C76)
    [0x00, 0x00, 0x00, 0x00, 0x00, 0x00, 0x00, 0x00, 0x00, 0x00, 0x00, 0x00, 0x00, 0x00, 0x00, 0x00,
     0x00, 0x00, 0x00, 0x00, 0x00, 0x00, 0x00, 0x00, 0x00, 0x00, 0x00, 0x00, 0x00, 0x00, 0x00, 0x00,
     0x00, 0x00, 0x00, 0x00, 0x00, 0x00, 0x00, 0x00, 0x00, 0x00, 0x00, 0x00, 0x00, 0x00, 0x00, 0x00,
     0x00, 0x00, 0x00, 0x00, 0x00, 0x00, 0x00, 0x00, 0x00, 0x00, 0x00, 0x00, 0x00, 0x00, 0x00, 0x00]
   = (0xBC3CE0F6, 0x1FD8BF9E, 0x574FC687, 0x25EC994E, 0xCDC98DF7)"
  by (simp add: sha1_eval)

lemma sha1_block_file1_header_2_3:
  "sha1_block (0xBC3CE0F6, 0x1FD8BF9E, 0x574FC687, 0x25EC994E, 0xCDC98DF7)
    [0x00, 0x00, 0x00, 0x00, 0x00, 0x00, 0x00, 0x00, 0x00, 0x00, 0x00, 0x00, 0x00, 0x00, 0x00, 0x00,
     0x00, 0x00, 0x00, 0x00, 0x00, 0x00, 0x00, 0x30, 0x00, 0x00, 0x00, 0x00, 0x00, 0x00, 0x01, 0x24,
     0xDA, 0x39, 0xA3, 0xEE, 0x5E, 0x6B, 0x4B, 0x0D, 0x32, 0x55, 0xBF, 0xEF, 0x95, 0x60, 0x18, 0x90,
     0xAF, 0xD8, 0x07, 0x09, 0x00, 0x00, 0x00, 0x01, 0x00, 0x00, 0x00, 0x00, 0x00, 0x00, 0x01, 0x24]
   = (0x9322E2C5, 0x77B80FEC, 0x6583B12D, 0xA4B16731, 0xB7269536)"
  by (simp add: sha1_eval)

lemma sha1_block_file1_header_2_4:
  "sha1_block (0x9322E2C5, 0x77B80FEC, 0x6583B12D, 0xA4B16731, 0xB7269536)
    [0x00, 0x00, 0x00, 0x18, 0x00, 0x00, 0x00, 0x01, 0x00, 0x00, 0x00, 0x00, 0x00, 0x00, 0x01, 0x3C,
     0x00, 0x00, 0x00, 0x08, 0x00, 0x00, 0x00, 0x00, 0x00, 0x00, 0x00, 0x00, 0x80, 0x00, 0x00, 0x00,
     0x00, 0x00, 0x00, 0x00, 0x00, 0x00, 0x00, 0x00, 0x00, 0x00, 0x00, 0x00, 0x00, 0x00, 0x00, 0x00,
     0x00, 0x00, 0x00, 0x00, 0x00, 0x00, 0x00, 0x00, 0x00, 0x00, 0x00, 0x00, 0x00, 0x00, 0x06, 0xE0]
   = (0x2C785A69, 0x64A3B07C, 0xE50E2089, 0x00E2E2A3, 0x495AE65F)"
  by (simp add: sha1_eval)

lemma sha1_file1_header_2:
  "sha1 [0x00, 0x00, 0x00, 0x01, 0x00, 0x00, 0x00, 0x05, 0x00, 0x00, 0x00, 0x00, 0x00, 0x20, 0x00, 0x00,
     0x00, 0x00, 0x00, 0x00, 0x00, 0x00, 0x00, 0x00, 0x00, 0x00, 0x00, 0x00, 0x00, 0x00, 0x00, 0x00,
     0x00, 0x00, 0x00, 0x00, 0x00, 0x00, 0x00, 0x00, 0x00, 0x00, 0x00, 0x00, 0xC2, 0x33, 0x9F, 0x3D,
     0x00, 0x00, 0x00, 0x00, 0x00, 0x00, 0x00, 0x00, 0x00, 0x00, 0x00, 0x00, 0x00, 0x00, 0x00, 0x00,
     0x00, 0x00, 0x00, 0x00, 0x00, 0x00, 0x00, 0x00, 0x00, 0x00, 0x00, 0x00, 0x00, 0x00, 0x00, 0x00,
     0x00, 0x00, 0x00, 0x00, 0x00, 0x00, 0x00, 0x00, 0x00, 0x00, 0x00, 0x00, 0x00, 0x00, 0x00, 0x00,
     0x00, 0x00, 0x00, 0x00, 0x00, 0x00, 0x00, 0x00, 0x00, 0x00, 0x00, 0x00, 0x00, 0x00, 0x00, 0x00,
     0x00, 0x00, 0x00, 0x00, 0x00, 0x00, 0x00, 0x00, 0x00, 0x00, 0x00, 0x00, 0x00, 0x00, 0x00, 0x00,
     0x00, 0x00, 0x00, 0x00, 0x00, 0x00, 0x00, 0x00, 0x00, 0x00, 0x00, 0x00, 0x00, 0x00, 0x00, 0x00,
     0x00, 0x00, 0x00, 0x00, 0x00, 0x00, 0x00, 0x30, 0x00, 0x00, 0x00, 0x00, 0x00, 0x00, 0x01, 0x24,
     0xDA, 0x39, 0xA3, 0xEE, 0x5E, 0x6B, 0x4B, 0x0D, 0x32, 0x55, 0xBF, 0xEF, 0x95, 0x60, 0x18, 0x90,
     0xAF, 0xD8, 0x07, 0x09, 0x00, 0x00, 0x00, 0x01, 0x00, 0x00, 0x00, 0x00, 0x00, 0x00, 0x01, 0x24,
     0x00, 0x00, 0x00, 0x18, 0x00, 0x00, 0x00, 0x01, 0x00, 0x00, 0x00, 0x00, 0x00, 0x00, 0x01, 0x3C,
     0x00, 0x00, 0x00, 0x08, 0x00, 0x00, 0x00, 0x00, 0x00, 0x00, 0x00, 0x00]
   = [0x2C, 0x78, 0x5A, 0x69, 0x64, 0xA3, 0xB0, 0x7C, 0xE5, 0x0E, 0x20, 0x89, 0x00, 0xE2, 0xE2, 0xA3,
     0x49, 0x5A, 0xE6, 0x5F]"
  by (simp add: sha1_def sha1_pad_def sha1_init_def be_bytes64_def be_bytes32_def
      replicate_numeral chunks_numeral sha1_block_file1_header_2_1 sha1_block_file1_header_2_2 sha1_block_file1_header_2_3 sha1_block_file1_header_2_4)


lemma file0_header_1:
  "read_header_1 file0 = Inr (load_WIAHeader1 (take 0x48 file0))"
  by (simp add: read_header_1_def read_bytes_def file0_def load_WIAHeader1_def member_bytes_def
      zero_member_def layout_defs WIA_MAGIC_def replicate_numeral sha1_file0_header_1)

lemma file0_header_2:
  "read_header_2 file0 (load_WIAHeader1 (take 0x48 file0))
     = Inr (load_WIAHeader2 (take 0xDC (drop 0x48 file0)))"
  by (simp add: read_header_2_def read_bytes_def file0_def load_WIAHeader1_def member_bytes_def
      layout_defs swap_defs WIA_VERSION_READ_COMPATIBLE_def sha1_file0_header_2)

lemma file0_types:
  "check_types (load_WIAHeader2 (take 0xDC (drop 0x48 file0))) = Inr Purge"
  by (simp add: check_types_def to_CompressionType_def file0_def load_WIAHeader2_def
      member_bytes_def layout_defs swap_defs)

lemma file0_partition_entries:
  "read_partition_entries file0 (load_WIAHeader2 (take 0xDC (drop 0x48 file0))) = Inr []"
  by (simp add: read_partition_entries_def read_bytes_def file0_def load_WIAHeader2_def
      member_bytes_def layout_defs swap_defs sha1_empty)

lemma file0_raw_data_entries:
  "read_raw_data_entries file0 (load_WIAHeader2 (take 0xDC (drop 0x48 file0)))
     = Inr [host_RawDataEntry (take 0x18 (drop 0x124 file0))]"
  by (simp add: read_raw_data_entries_def read_bytes_def file0_def load_WIAHeader2_def
      load_RawDataEntry_def swap_RawDataEntry_def host_RawDataEntry_def be_word_def
      member_bytes_def layout_defs swap_defs)

lemma file0_group_entries:
  "read_group_entries file0 (load_WIAHeader2 (take 0xDC (drop 0x48 file0)))
     = Inr [host_GroupEntry (take 0x08 (drop 0x13C file0))]"
  by (simp add: read_group_entries_def read_bytes_def file0_def load_WIAHeader2_def
      load_GroupEntry_def swap_GroupEntry_def host_GroupEntry_def be_word_def
      member_bytes_def layout_defs swap_defs)

lemma WIA_open_file0: "WIA_open file0 = Inr decoder0"
  by (simp add: WIA_open_def decoder0_def file0_header_1 file0_header_2 file0_types
      file0_partition_entries file0_raw_data_entries file0_group_entries)

lemma length_file0: "length file0 = 0x144"
  by (simp add: file0_def)

lemma file0_loaded:
  "iso_file_size (load_WIAHeader1 (take 0x48 file0)) = 0x0000200000000000"
  "wia_file_size (load_WIAHeader1 (take 0x48 file0)) = 0x4401000000000000"
  "chunk_size (load_WIAHeader2 (take 0xDC (drop 0x48 file0))) = 0x00002000"
  by (simp_all add: file0_def load_WIAHeader1_def load_WIAHeader2_def
      member_bytes_def layout_defs)

lemma file0_stored:
  "iso_file_size (m_header_1 decoder0) = 0x0000200000000000"
  "wia_file_size (m_header_1 decoder0) = 0x4401000000000000"
  "chunk_size (m_header_2 decoder0) = 0x00002000"
  by (simp_all add: decoder0_def file0_loaded)

lemma file0_on_disk:
  "be_word (member_bytes WIAHeader1_members ''iso_file_size'' file0) = (0x200000 :: u64)"
  "be_word (member_bytes WIAHeader1_members ''wia_file_size'' file0) = (0x144 :: u64)"
  "be_word (member_bytes WIAHeader2_members ''chunk_size'' (drop 0x48 file0)) = (0x200000 :: u32)"
  "be_word (member_bytes WIAHeader1_members ''version_compatible'' file0) = (0x00080000 :: u32)"
  by (simp_all add: file0_def be_word_def member_bytes_def layout_defs)

lemma file1_header_1:
  "read_header_1 file1 = Inr (load_WIAHeader1 (take 0x48 file1))"
  by (simp add: read_header_1_def read_bytes_def file1_def load_WIAHeader1_def member_bytes_def
      zero_member_def layout_defs WIA_MAGIC_def replicate_numeral sha1_file1_header_1)

lemma file1_header_2:
  "read_header_2 file1 (load_WIAHeader1 (take 0x48 file1))
     = Inr (load_WIAHeader2 (take 0xDC (drop 0x48 file1)))"
  by (simp add: read_header_2_def read_bytes_def file1_def load_WIAHeader1_def member_bytes_def
      layout_defs swap_defs WIA_VERSION_READ_COMPATIBLE_def sha1_file1_header_2)

lemma file1_compression_type:
  "swap32 (compression_type (load_WIAHeader2 (take 0xDC (drop 0x48 file1)))) = 5"
  by (simp add: file1_def load_WIAHeader2_def member_bytes_def layout_defs swap_defs)

lemma file2_version_compatible:
  "be_word (member_bytes WIAHeader1_members ''version_compatible'' file2) = (0x0007FFFF :: u32)"
  by (simp add: file2_def be_word_def member_bytes_def layout_defs)

lemma file3_magic:
  "length file3 = 0x144" "le_word (take 4 file3) = (0x01414958 :: u32)"
  by (simp_all add: file3_def)

section \<open>The claims\<close>

text \<open>
  C6: the on-disk records have the sizes the data model declares: Header1 0x48 bytes,
  Header2 0xDC bytes, a raw-data entry 0x18 bytes, a group entry 0x08 bytes (two
  \<open>u32\<close>), a hash-exception entry 0x16 bytes (a \<open>u16\<close> offset and a 20-byte hash), a purge
  segment 0x08 bytes (two \<open>u32\<close>), and a partition entry 0x30 bytes: a 16-byte key and two
  partition data entries of 0x10 bytes each.
\<close>

theorem record_sizes:
  "sizeof (Struct WIAHeader1_members) = 0x48
   \<and> sizeof (Struct WIAHeader2_members) = 0xDC
   \<and> sizeof (Struct RawDataEntry_members) = 0x18
   \<and> sizeof (Struct GroupEntry_members) = 0x08
   \<and> map snd GroupEntry_members = [U32, U32]
   \<and> sizeof (Struct HashExceptionEntry_members) = 0x16
   \<and> map snd HashExceptionEntry_members = [U16, Array 20 U8]
   \<and> sizeof (Struct PurgeSegment_members) = 0x08
   \<and> map snd PurgeSegment_members = [U32, U32]
   \<and> sizeof (Struct PartitionEntry_members) = 0x30
   \<and> map snd PartitionEntry_members = [Array 16 U8, Array 2 (Struct PartitionDataEntry_members)]
   \<and> sizeof (Struct PartitionDataEntry_members) = 0x10"
  by (simp add: layout_defs)

text \<open>
  C9: \<open>HasFastRandomAccessInBlock\<close> returns false for every decoder, whatever file it
  was opened on.
\<close>

theorem no_fast_random_access: "HasFastRandomAccessInBlock r = False"
  by (simp add: HasFastRandomAccessInBlock_def)

text \<open>C10: \<open>IsDataSizeAccurate\<close> returns true for every decoder.\<close>

theorem data_size_accurate: "IsDataSizeAccurate r = True"
  by (simp add: IsDataSizeAccurate_def)

text \<open>
  C1: after a successful open, \<open>GetDataSize\<close> returns the big-endian value of the
  \<open>iso_file_size\<close> member of the first header of the file, that is, the member in host
  order.
\<close>

theorem data_size_is_iso_file_size:
  "WIA_open f = Inr r \<Longrightarrow>
     GetDataSize r = be_word (member_bytes WIAHeader1_members ''iso_file_size'' f)"
  by (simp add: GetDataSize_def stored_iso_file_size)

theorem data_size_is_iso_file_size_witness:
  "WIA_open file0 = Inr decoder0 \<and> GetDataSize decoder0 = 0x200000"
  using data_size_is_iso_file_size [OF WIA_open_file0] WIA_open_file0
  by (simp add: file0_on_disk)

text \<open>
  C7: after a successful open, \<open>GetRawSize\<close> returns the big-endian value of the
  \<open>wia_file_size\<close> member of the first header of the file, the size of the compressed
  file as the header records it.
\<close>

theorem raw_size_is_wia_file_size:
  "WIA_open f = Inr r \<Longrightarrow>
     GetRawSize r = be_word (member_bytes WIAHeader1_members ''wia_file_size'' f)"
  by (simp add: GetRawSize_def stored_wia_file_size)

theorem raw_size_is_wia_file_size_witness:
  "WIA_open file0 = Inr decoder0 \<and> GetRawSize decoder0 = 0x144
     \<and> length file0 = 0x144"
  using raw_size_is_wia_file_size [OF WIA_open_file0] WIA_open_file0
  by (simp add: file0_on_disk length_file0)

text \<open>
  C8: after a successful open, \<open>GetBlockSize\<close> returns the big-endian value of the
  \<open>chunk_size\<close> member of the second header, which follows the first one in the file
  (widened to the 64 bits of the return type).
\<close>

theorem block_size_is_chunk_size:
  "WIA_open f = Inr r \<Longrightarrow>
     GetBlockSize r =
       ucast (be_word (member_bytes WIAHeader2_members ''chunk_size''
                         (drop (sizeof (Struct WIAHeader1_members)) f)) :: u32)"
  by (simp add: GetBlockSize_def stored_chunk_size sizeof_WIAHeader1)

theorem block_size_is_chunk_size_witness:
  "WIA_open file0 = Inr decoder0 \<and> GetBlockSize decoder0 = 0x200000"
  using block_size_is_chunk_size [OF WIA_open_file0] WIA_open_file0
  by (simp add: file0_on_disk sizeof_WIAHeader1)

text \<open>
  C2, as stated: after a successful open the stored headers hold host-order values, so
  that no accessor swaps a stored member again. \<open>file0\<close> opens and its \<open>iso_file_size\<close>
  is 0x200000. Whatever a decoder holds, it cannot both store that member in host order and
  have \<open>GetDataSize\<close> return the member it stores, because \<open>GetDataSize\<close> swaps: the
  decoder of \<open>file0\<close> with 0x200000 stored answers 0x0000200000000000, and the decoder
  that answers 0x200000, as a data size must, gets there by the swap.
\<close>

theorem stored_host_order_counterexample:
  "WIA_open file0 = Inr decoder0
   \<and> be_word (member_bytes WIAHeader1_members ''iso_file_size'' file0) = (0x200000 :: u64)
   \<and> (\<forall>r. \<not> (iso_file_size (m_header_1 r) = 0x200000
               \<and> GetDataSize r = iso_file_size (m_header_1 r)))
   \<and> GetDataSize (decoder0\<lparr>m_header_1 := (m_header_1 decoder0)\<lparr>iso_file_size := 0x200000\<rparr>\<rparr>)
        = 0x0000200000000000
   \<and> GetDataSize decoder0 = 0x200000
   \<and> GetDataSize decoder0 \<noteq> iso_file_size (m_header_1 decoder0)"
  by (auto simp: WIA_open_file0 file0_stored file0_on_disk GetDataSize_def swap_defs)

text \<open>
  C2, amended: after a successful open the entries of the partition, raw-data and group
  tables have been byte-swapped from big-endian to host order, so that the stored tables
  hold host-order values. The stored headers do not: \<open>GetRawSize\<close>, \<open>GetDataSize\<close> and
  \<open>GetBlockSize\<close> swap the stored member on every call and return the host-order value
  of the field of the file, so that the stored member is the byte swap of that value, the
  big-endian order of the file.
\<close>

theorem stored_values_after_open:
  "WIA_open f = Inr r \<Longrightarrow>
     m_partition_entries r =
       map host_PartitionEntry
         (chunks (unat (swap32 (number_of_partition_entries (m_header_2 r))))
            (unat (swap32 (partition_entry_size (m_header_2 r))))
            (take ((unat (swap32 (number_of_partition_entries (m_header_2 r))))
                     * (unat (swap32 (partition_entry_size (m_header_2 r)))))
               (drop (unat (swap64 (partition_entries_offset (m_header_2 r)))) f)))
   \<and> m_raw_data_entries r =
       map host_RawDataEntry
         (chunks (unat (swap32 (number_of_raw_data_entries (m_header_2 r)))) 0x18
            (take ((unat (swap32 (number_of_raw_data_entries (m_header_2 r)))) * 0x18)
               (drop (unat (swap64 (raw_data_entries_offset (m_header_2 r)))) f)))
   \<and> m_group_entries r =
       map host_GroupEntry
         (chunks (unat (swap32 (number_of_group_entries (m_header_2 r)))) 0x08
            (take ((unat (swap32 (number_of_group_entries (m_header_2 r)))) * 0x08)
               (drop (unat (swap64 (group_entries_offset (m_header_2 r)))) f)))
   \<and> GetRawSize r = swap64 (wia_file_size (m_header_1 r))
   \<and> GetDataSize r = swap64 (iso_file_size (m_header_1 r))
   \<and> GetBlockSize r = ucast (swap32 (chunk_size (m_header_2 r)))
   \<and> GetRawSize r = be_word (member_bytes WIAHeader1_members ''wia_file_size'' f)
   \<and> GetDataSize r = be_word (member_bytes WIAHeader1_members ''iso_file_size'' f)
   \<and> GetBlockSize r =
       ucast (be_word (member_bytes WIAHeader2_members ''chunk_size''
             (drop (sizeof (Struct WIAHeader1_members)) f)) :: u32)
   \<and> wia_file_size (m_header_1 r) =
       swap64 (be_word (member_bytes WIAHeader1_members ''wia_file_size'' f))
   \<and> iso_file_size (m_header_1 r) =
       swap64 (be_word (member_bytes WIAHeader1_members ''iso_file_size'' f))
   \<and> chunk_size (m_header_2 r) =
       swap32 (be_word (member_bytes WIAHeader2_members ''chunk_size''
             (drop (sizeof (Struct WIAHeader1_members)) f)))"
proof -
  assume a: "WIA_open f = Inr r"
  have tp: "m_partition_entries r =
       map host_PartitionEntry
         (chunks (unat (swap32 (number_of_partition_entries (m_header_2 r))))
            (unat (swap32 (partition_entry_size (m_header_2 r))))
            (take ((unat (swap32 (number_of_partition_entries (m_header_2 r))))
                     * (unat (swap32 (partition_entry_size (m_header_2 r)))))
               (drop (unat (swap64 (partition_entries_offset (m_header_2 r)))) f)))"
    using read_partition_entries_Inr [OF WIA_open_tables(1) [OF a]] .
  have tr: "m_raw_data_entries r =
       map host_RawDataEntry
         (chunks (unat (swap32 (number_of_raw_data_entries (m_header_2 r)))) 0x18
            (take ((unat (swap32 (number_of_raw_data_entries (m_header_2 r)))) * 0x18)
               (drop (unat (swap64 (raw_data_entries_offset (m_header_2 r)))) f)))"
    using read_raw_data_entries_Inr [OF WIA_open_tables(2) [OF a]] .
  have tg: "m_group_entries r =
       map host_GroupEntry
         (chunks (unat (swap32 (number_of_group_entries (m_header_2 r)))) 0x08
            (take ((unat (swap32 (number_of_group_entries (m_header_2 r)))) * 0x08)
               (drop (unat (swap64 (group_entries_offset (m_header_2 r)))) f)))"
    using read_group_entries_Inr [OF WIA_open_tables(3) [OF a]] .
  have aw: "GetRawSize r = swap64 (wia_file_size (m_header_1 r))"
    by (simp add: GetRawSize_def)
  have ai: "GetDataSize r = swap64 (iso_file_size (m_header_1 r))"
    by (simp add: GetDataSize_def)
  have ac: "GetBlockSize r = ucast (swap32 (chunk_size (m_header_2 r)))"
    by (simp add: GetBlockSize_def)
  have hw: "GetRawSize r = be_word (member_bytes WIAHeader1_members ''wia_file_size'' f)"
    by (simp add: GetRawSize_def stored_wia_file_size [OF a])
  have hi: "GetDataSize r = be_word (member_bytes WIAHeader1_members ''iso_file_size'' f)"
    by (simp add: GetDataSize_def stored_iso_file_size [OF a])
  have hc: "GetBlockSize r =
       ucast (be_word (member_bytes WIAHeader2_members ''chunk_size''
             (drop (sizeof (Struct WIAHeader1_members)) f)) :: u32)"
    by (simp add: GetBlockSize_def stored_chunk_size [OF a] sizeof_WIAHeader1)
  have sw: "wia_file_size (m_header_1 r) =
       swap64 (be_word (member_bytes WIAHeader1_members ''wia_file_size'' f))"
    using stored_wia_file_size [OF a] swap64_swap64 [of "wia_file_size (m_header_1 r)"]
    by simp
  have si: "iso_file_size (m_header_1 r) =
       swap64 (be_word (member_bytes WIAHeader1_members ''iso_file_size'' f))"
    using stored_iso_file_size [OF a] swap64_swap64 [of "iso_file_size (m_header_1 r)"]
    by simp
  have sc: "chunk_size (m_header_2 r) =
       swap32 (be_word (member_bytes WIAHeader2_members ''chunk_size''
             (drop (sizeof (Struct WIAHeader1_members)) f)))"
    using stored_chunk_size [OF a] swap32_swap32 [of "chunk_size (m_header_2 r)"]
    by (simp add: sizeof_WIAHeader1)
  show ?thesis
    by (intro conjI tp tr tg aw ai ac hw hi hc sw si sc)
qed

theorem stored_values_after_open_witness:
  "WIA_open file0 = Inr decoder0
   \<and> m_partition_entries decoder0 = []
   \<and> map RawDataEntry.data_offset (m_raw_data_entries decoder0) = [0]
   \<and> map RawDataEntry.data_size (m_raw_data_entries decoder0) = [0x200000]
   \<and> map RawDataEntry.group_index (m_raw_data_entries decoder0) = [0]
   \<and> map RawDataEntry.number_of_groups (m_raw_data_entries decoder0) = [1]
   \<and> map GroupEntry.data_offset (m_group_entries decoder0) = [0]
   \<and> map GroupEntry.data_size (m_group_entries decoder0) = [0]
   \<and> GetRawSize decoder0 = 0x144 \<and> wia_file_size (m_header_1 decoder0) = 0x4401000000000000
   \<and> GetDataSize decoder0 = 0x200000
   \<and> iso_file_size (m_header_1 decoder0) = 0x0000200000000000
   \<and> GetBlockSize decoder0 = 0x200000 \<and> chunk_size (m_header_2 decoder0) = 0x00002000"
proof -
  note t = stored_values_after_open [OF WIA_open_file0]
  have tables:
    "m_partition_entries decoder0 = []"
    "map RawDataEntry.data_offset (m_raw_data_entries decoder0) = [0]"
    "map RawDataEntry.data_size (m_raw_data_entries decoder0) = [0x200000]"
    "map RawDataEntry.group_index (m_raw_data_entries decoder0) = [0]"
    "map RawDataEntry.number_of_groups (m_raw_data_entries decoder0) = [1]"
    "map GroupEntry.data_offset (m_group_entries decoder0) = [0]"
    "map GroupEntry.data_size (m_group_entries decoder0) = [0]"
    by (simp_all add: decoder0_def file0_def host_RawDataEntry_def host_GroupEntry_def
        be_word_def member_bytes_def layout_defs)
  have accessors:
    "GetRawSize decoder0 = 0x144" "GetDataSize decoder0 = 0x200000"
    "GetBlockSize decoder0 = 0x200000"
    using t by (simp_all add: file0_on_disk sizeof_WIAHeader1 swap64_swap64 swap32_swap32)
  from t show ?thesis
    by (simp (no_asm) only: WIA_open_file0 tables accessors file0_stored simp_thms)
qed

text \<open>
  C3: the read-compatibility floor is the constant 0x00080000, and open rejects every
  file whose \<open>version_compatible\<close> (the big-endian member of the first header) is
  strictly less than it.
\<close>

theorem version_compatible_floor:
  "WIA_VERSION_READ_COMPATIBLE = 0x00080000
   \<and> (be_word (member_bytes WIAHeader1_members ''version_compatible'' f)
          < WIA_VERSION_READ_COMPATIBLE \<longrightarrow> (\<exists>e. WIA_open f = Inl e))"
proof (intro conjI impI)
  show "WIA_VERSION_READ_COMPATIBLE = 0x00080000"
    by (simp add: WIA_VERSION_READ_COMPATIBLE_def)
next
  assume low: "be_word (member_bytes WIAHeader1_members ''version_compatible'' f)
                 < WIA_VERSION_READ_COMPATIBLE"
  show "\<exists>e. WIA_open f = Inl e"
  proof (cases "WIA_open f")
    case (Inl e)
    then show ?thesis by blast
  next
    case (Inr r)
    have "WIA_VERSION_READ_COMPATIBLE \<le> swap32 (version_compatible (m_header_1 r))"
      using read_header_2_Inr(3) [OF WIA_open_Inr(2) [OF Inr]] .
    also have "\<dots> = be_word (member_bytes WIAHeader1_members ''version_compatible'' f)"
      using stored_version_compatible [OF WIA_open_Inr(1) [OF Inr]] .
    finally show ?thesis using low by simp
  qed
qed

text \<open>\<open>file2\<close> is one below the floor; \<open>file0\<close>, at the floor, opens.\<close>

theorem version_compatible_floor_witness:
  "be_word (member_bytes WIAHeader1_members ''version_compatible'' file2) = (0x0007FFFF :: u32)
   \<and> (0x0007FFFF :: u32) < WIA_VERSION_READ_COMPATIBLE
   \<and> (\<exists>e. WIA_open file2 = Inl e)
   \<and> be_word (member_bytes WIAHeader1_members ''version_compatible'' file0)
        = WIA_VERSION_READ_COMPATIBLE
   \<and> WIA_open file0 = Inr decoder0"
  using version_compatible_floor [of file2]
  by (simp add: file2_version_compatible file0_on_disk WIA_open_file0
      WIA_VERSION_READ_COMPATIBLE_def)

text \<open>
  C4: the magic the decoder compares with is 0x01414957, which is what a little-endian
  host reads from the bytes \<open>W\<close>, \<open>I\<close>, \<open>A\<close>, 0x01; a file whose first header can be
  read and whose first four bytes, read that way, differ from it fails to open with
  \<open>UnsupportedFormat\<close>.
\<close>

theorem magic_mismatch:
  "WIA_MAGIC = 0x01414957
   \<and> WIA_MAGIC = le_word (map (of_nat \<circ> of_char) ''WIA'' @ [0x01])
   \<and> (sizeof (Struct WIAHeader1_members) \<le> length f \<and> le_word (take 4 f) \<noteq> WIA_MAGIC
        \<longrightarrow> WIA_open f = Inl UnsupportedFormat)"
  by (auto simp: WIA_MAGIC_def WIA_open_def read_header_1_def read_bytes_def
      load_WIAHeader1_def member_bytes_def WIAHeader1_members_def SHA1_t_def)

theorem magic_mismatch_witness:
  "sizeof (Struct WIAHeader1_members) \<le> length file3
   \<and> le_word (take 4 file3) = (0x01414958 :: u32)
   \<and> le_word (take 4 file3) \<noteq> WIA_MAGIC
   \<and> WIA_open file3 = Inl UnsupportedFormat"
  using magic_mismatch [of file3]
  by (simp add: file3_magic sizeof_WIAHeader1 WIA_MAGIC_def)

text \<open>
  C5: the enumeration has exactly the five enumerators None = 0, Purge = 1, Bzip2 = 2,
  LZMA = 3 and LZMA2 = 4; a file whose headers pass their checks and whose
  \<open>compression_type\<close> is none of these values fails to open with \<open>UnsupportedFormat\<close>,
  and the decoder of a file that opens holds the enumerator of the file's value.
\<close>

theorem compression_types:
  "map CompressionType_value [None', Purge, Bzip2, LZMA, LZMA2] = [0, 1, 2, 3, 4]
   \<and> (UNIV :: CompressionType set) = {None', Purge, Bzip2, LZMA, LZMA2}
   \<and> (read_header_1 f = Inr h1 \<and> read_header_2 f h1 = Inr h2
        \<and> be_word (member_bytes WIAHeader2_members ''compression_type''
                     (drop (sizeof (Struct WIAHeader1_members)) f))
             \<notin> {0, 1, 2, 3, 4 :: u32}
        \<longrightarrow> WIA_open f = Inl UnsupportedFormat)
   \<and> (WIA_open g = Inr r
        \<longrightarrow> CompressionType_value (m_compression_type r)
              = be_word (member_bytes WIAHeader2_members ''compression_type''
                           (drop (sizeof (Struct WIAHeader1_members)) g)))"
proof (intro conjI impI)
  show "map CompressionType_value [None', Purge, Bzip2, LZMA, LZMA2] = [0, 1, 2, 3, 4]"
    by simp
next
  show "(UNIV :: CompressionType set) = {None', Purge, Bzip2, LZMA, LZMA2}"
    using CompressionType.exhaust by auto
next
  assume a: "read_header_1 f = Inr h1 \<and> read_header_2 f h1 = Inr h2
     \<and> be_word (member_bytes WIAHeader2_members ''compression_type''
                  (drop (sizeof (Struct WIAHeader1_members)) f)) \<notin> {0, 1, 2, 3, 4 :: u32}"
  then have "swap32 (compression_type h2) \<notin> {0, 1, 2, 3, 4}"
    using stored_compression_type [of f h1 h2] by (simp add: sizeof_WIAHeader1)
  then have "check_types h2 = Inl UnsupportedFormat"
    by (simp add: check_types_def to_CompressionType_def)
  with a show "WIA_open f = Inl UnsupportedFormat"
    by (simp add: WIA_open_def)
next
  assume g: "WIA_open g = Inr r"
  have "to_CompressionType (swap32 (compression_type (m_header_2 r)))
          = Some (m_compression_type r)"
    using WIA_open_Inr(3) [OF g]
    by (auto simp: check_types_def split: option.splits if_splits)
  then have "CompressionType_value (m_compression_type r)
               = swap32 (compression_type (m_header_2 r))"
    by (auto simp: to_CompressionType_def split: if_splits)
  then show "CompressionType_value (m_compression_type r)
      = be_word (member_bytes WIAHeader2_members ''compression_type''
                   (drop (sizeof (Struct WIAHeader1_members)) g))"
    using stored_compression_type [OF WIA_open_Inr(2) [OF g]]
    by (simp add: sizeof_WIAHeader1)
qed

theorem compression_types_witness:
  "read_header_1 file1 = Inr (load_WIAHeader1 (take 0x48 file1))
   \<and> read_header_2 file1 (load_WIAHeader1 (take 0x48 file1))
        = Inr (load_WIAHeader2 (take 0xDC (drop 0x48 file1)))
   \<and> be_word (member_bytes WIAHeader2_members ''compression_type''
                (drop (sizeof (Struct WIAHeader1_members)) file1)) = (5 :: u32)
   \<and> WIA_open file1 = Inl UnsupportedFormat
   \<and> WIA_open file0 = Inr decoder0
   \<and> m_compression_type decoder0 = Purge
   \<and> be_word (member_bytes WIAHeader2_members ''compression_type''
                (drop (sizeof (Struct WIAHeader1_members)) file0)) = (1 :: u32)"
proof -
  have five: "be_word (member_bytes WIAHeader2_members ''compression_type''
                (drop (sizeof (Struct WIAHeader1_members)) file1)) = (5 :: u32)"
    by (simp add: file1_def be_word_def member_bytes_def layout_defs)
  have one: "be_word (member_bytes WIAHeader2_members ''compression_type''
                (drop (sizeof (Struct WIAHeader1_members)) file0)) = (1 :: u32)"
    by (simp add: file0_def be_word_def member_bytes_def layout_defs)
  show ?thesis
    using compression_types [of file1 "load_WIAHeader1 (take 0x48 file1)"
        "load_WIAHeader2 (take 0xDC (drop 0x48 file1))" file0 decoder0]
      file1_header_1 file1_header_2 WIA_open_file0 five one
    by (simp add: decoder0_def)
qed

end
